theory Spec2Isabelle
  imports Main "HOL-Library.Word" "HOL-Library.Sublist"
begin

unbundle bit_operations_syntax

section \<open>Python values\<close>

text \<open>
  The values that \<^verbatim>\<open>response.json()\<close> can return, and that therefore flow through the
  program: \<^verbatim>\<open>None\<close>, booleans, unbounded integers, floats, strings, lists and dicts
  with string keys. A string is a sequence of code points below 256. A dict is the list of
  its items in insertion order, with distinct keys.

  A float is kept as the two observations the program makes of it: whether it compares
  equal to \<^verbatim>\<open>0\<close>, and the text that \<^verbatim>\<open>str\<close> gives for it.
\<close>

datatype pyfloat = PyFloat (float_is_zero: bool) (float_text: string)

datatype pyval =
    PNone
  | PBool bool
  | PInt int
  | PFloat pyfloat
  | PStr string
  | PList "pyval list"
  | PDict "(string \<times> pyval) list"

text \<open>
  The exceptions that occur. \<^verbatim>\<open>SystemExit\<close> derives from \<^verbatim>\<open>BaseException\<close> only, so
  \<^verbatim>\<open>except Exception\<close> does not catch it; all the others derive from \<^verbatim>\<open>Exception\<close>.
\<close>

datatype exc =
    RequestException
  | JSONDecodeError
  | AttributeError
  | TypeError
  | ValueError
  | IndexError
  | KeyError
  | EOFError
  | SystemExit int

fun is_Exception :: "exc \<Rightarrow> bool" where
  "is_Exception (SystemExit _) = False"
| "is_Exception _ = True"

text \<open>Truth value of an object, as \<^verbatim>\<open>if x:\<close> and \<^verbatim>\<open>not x\<close> test it.\<close>

fun truthy :: "pyval \<Rightarrow> bool" where
  "truthy PNone = False"
| "truthy (PBool b) = b"
| "truthy (PInt n) = (n \<noteq> 0)"
| "truthy (PFloat f) = (\<not> float_is_zero f)"
| "truthy (PStr s) = (s \<noteq> [])"
| "truthy (PList xs) = (xs \<noteq> [])"
| "truthy (PDict kvs) = (kvs \<noteq> [])"

text \<open>
  \<^verbatim>\<open>x == 0\<close>. Python compares numbers by value across \<^verbatim>\<open>int\<close>, \<^verbatim>\<open>bool\<close> and
  \<^verbatim>\<open>float\<close>, so \<^verbatim>\<open>False == 0\<close> and \<^verbatim>\<open>0.0 == 0\<close> hold; no other kind of value
  equals \<^verbatim>\<open>0\<close>.
\<close>

fun py_eq_zero :: "pyval \<Rightarrow> bool" where
  "py_eq_zero (PInt n) = (n = 0)"
| "py_eq_zero (PBool b) = (\<not> b)"
| "py_eq_zero (PFloat f) = float_is_zero f"
| "py_eq_zero _ = False"

text \<open>
  \<^verbatim>\<open>x.get(key, default)\<close>: only a dict has the method; on any other value the attribute
  lookup raises \<^verbatim>\<open>AttributeError\<close>.
\<close>

fun dict_get :: "pyval \<Rightarrow> string \<Rightarrow> pyval \<Rightarrow> exc + pyval" where
  "dict_get (PDict kvs) k d = Inr (case map_of kvs k of Some v \<Rightarrow> v | None \<Rightarrow> d)"
| "dict_get _ k d = Inl AttributeError"

subsection \<open>Text of a value\<close>

definition digit_char :: "nat \<Rightarrow> char" where
  "digit_char n = ''0123456789abcdef'' ! n"

fun str_of_nat :: "nat \<Rightarrow> string" where
  "str_of_nat n = (if n < 10 then [digit_char n] else str_of_nat (n div 10) @ [digit_char (n mod 10)])"

declare str_of_nat.simps [simp del]

definition str_of_int :: "int \<Rightarrow> string" where
  "str_of_int i = (if i < 0 then CHR ''-'' # str_of_nat (nat (- i)) else str_of_nat (nat i))"

definition py_join :: "string \<Rightarrow> string list \<Rightarrow> string" where
  "py_join sep xs = (case xs of [] \<Rightarrow> [] | y # ys \<Rightarrow> y @ concat (map (\<lambda>z. sep @ z) ys))"

definition is_printable :: "char \<Rightarrow> bool" where
  "is_printable c = (let n = (of_char c :: nat) in
     (0x20 \<le> n \<and> n < 0x7F) \<or> (0xA1 \<le> n \<and> n \<noteq> 0xAD))"

text \<open>\<^verbatim>\<open>repr\<close> of a string: the quote is \<^verbatim>\<open>"\<close> only when the string has a \<^verbatim>\<open>'\<close> and no \<^verbatim>\<open>"\<close>.\<close>

definition repr_char :: "char \<Rightarrow> char \<Rightarrow> string" where
  "repr_char q c =
     (if c = CHR 0x5C then [CHR 0x5C, CHR 0x5C]
      else if c = q then [CHR 0x5C, q]
      else if c = CHR 0x09 then [CHR 0x5C, CHR ''t'']
      else if c = CHR 0x0A then [CHR 0x5C, CHR ''n'']
      else if c = CHR 0x0D then [CHR 0x5C, CHR ''r'']
      else if is_printable c then [c]
      else [CHR 0x5C, CHR ''x'', digit_char (of_char c div 16), digit_char (of_char c mod 16)])"

definition repr_str :: "string \<Rightarrow> string" where
  "repr_str s = (let q = (if CHR 0x27 \<in> set s \<and> CHR 0x22 \<notin> set s then CHR 0x22 else CHR 0x27)
                in [q] @ concat (map (repr_char q) s) @ [q])"

fun py_repr :: "pyval \<Rightarrow> string" where
  "py_repr PNone = ''None''"
| "py_repr (PBool b) = (if b then ''True'' else ''False'')"
| "py_repr (PInt n) = str_of_int n"
| "py_repr (PFloat f) = float_text f"
| "py_repr (PStr s) = repr_str s"
| "py_repr (PList xs) = ''['' @ py_join '', '' (map py_repr xs) @ '']''"
| "py_repr (PDict kvs) =
     ''{'' @ py_join '', '' (map (\<lambda>kv. repr_str (fst kv) @ '': '' @ py_repr (snd kv)) kvs) @ ''}''"

text \<open>\<^verbatim>\<open>str(x)\<close>, which is also what \<^verbatim>\<open>f"{x}"\<close> interpolates.\<close>

definition py_str :: "pyval \<Rightarrow> string" where
  "py_str v = (case v of PStr s \<Rightarrow> s | _ \<Rightarrow> py_repr v)"

subsection \<open>Format specifications\<close>

definition ljust :: "nat \<Rightarrow> string \<Rightarrow> string" where
  "ljust w s = s @ replicate (w - length s) CHR '' ''"

definition rjust :: "nat \<Rightarrow> string \<Rightarrow> string" where
  "rjust w s = replicate (w - length s) CHR '' '' @ s"

text \<open>
  \<^verbatim>\<open>f"{x:<w}"\<close>: the text of \<^verbatim>\<open>x\<close>, left-aligned in a field of at least \<^verbatim>\<open>w\<close>
  characters. There is no precision, so nothing is cut. A \<^verbatim>\<open>bool\<close> is formatted by
  \<^verbatim>\<open>int.__format__\<close>, as \<^verbatim>\<open>1\<close> or \<^verbatim>\<open>0\<close>. \<^verbatim>\<open>None\<close>, lists and dicts only have
  \<^verbatim>\<open>object.__format__\<close>, which raises \<^verbatim>\<open>TypeError\<close> on a non-empty specification.
\<close>

fun format_left :: "nat \<Rightarrow> pyval \<Rightarrow> exc + string" where
  "format_left w (PStr s) = Inr (ljust w s)"
| "format_left w (PInt n) = Inr (ljust w (str_of_int n))"
| "format_left w (PBool b) = Inr (ljust w (if b then ''1'' else ''0''))"
| "format_left w (PFloat f) = Inr (ljust w (float_text f))"
| "format_left w _ = Inl TypeError"

section \<open>MD5\<close>

text \<open>
  \<^verbatim>\<open>hashlib.md5(s.encode()).hexdigest()\<close>: the UTF-8 encoding of the string, the MD5
  digest of RFC 1321 of these bytes, and its 32 lowercase hexadecimal digits.
\<close>

type_synonym byte = "8 word"
type_synonym u32 = "32 word"

definition encode :: "string \<Rightarrow> byte list" where
  "encode s = concat (map (\<lambda>c. let n = (of_char c :: nat) in
       if n < 128 then [word_of_nat n]
       else [word_of_nat (192 + n div 64), word_of_nat (128 + n mod 64)]) s)"

definition word_le_bytes :: "nat \<Rightarrow> 'a::len word \<Rightarrow> byte list" where
  "word_le_bytes k w = map (\<lambda>i. ucast (drop_bit (8 * i) w)) [0..<k]"

text \<open>
  Padding: one byte \<^verbatim>\<open>0x80\<close>, zero bytes up to 56 modulo 64, then the length of the
  message in bits as a 64-bit little-endian number.
\<close>

definition md5_pad :: "byte list \<Rightarrow> byte list" where
  "md5_pad m = m @ [0x80] @ replicate ((119 - length m mod 64) mod 64) 0
                 @ word_le_bytes 8 (word_of_nat (8 * length m) :: 64 word)"

fun chunks64 :: "byte list \<Rightarrow> byte list list" where
  "chunks64 [] = []"
| "chunks64 (b # bs) = take 64 (b # bs) # chunks64 (drop 64 (b # bs))"

definition le_word :: "byte list \<Rightarrow> u32" where
  "le_word bs = foldr (\<lambda>b acc. ucast b OR push_bit 8 acc) bs 0"

fun words_of :: "byte list \<Rightarrow> u32 list" where
  "words_of (a # b # c # d # rest) = le_word [a, b, c, d] # words_of rest"
| "words_of _ = []"

definition md5_s :: "nat list" where
  "md5_s = [7, 12, 17, 22, 7, 12, 17, 22, 7, 12, 17, 22, 7, 12, 17, 22,
            5, 9, 14, 20, 5, 9, 14, 20, 5, 9, 14, 20, 5, 9, 14, 20,
            4, 11, 16, 23, 4, 11, 16, 23, 4, 11, 16, 23, 4, 11, 16, 23,
            6, 10, 15, 21, 6, 10, 15, 21, 6, 10, 15, 21, 6, 10, 15, 21]"

definition md5_K :: "u32 list" where
  "md5_K =
  [0xd76aa478, 0xe8c7b756, 0x242070db, 0xc1bdceee,
   0xf57c0faf, 0x4787c62a, 0xa8304613, 0xfd469501,
   0x698098d8, 0x8b44f7af, 0xffff5bb1, 0x895cd7be,
   0x6b901122, 0xfd987193, 0xa679438e, 0x49b40821,
   0xf61e2562, 0xc040b340, 0x265e5a51, 0xe9b6c7aa,
   0xd62f105d, 0x02441453, 0xd8a1e681, 0xe7d3fbc8,
   0x21e1cde6, 0xc33707d6, 0xf4d50d87, 0x455a14ed,
   0xa9e3e905, 0xfcefa3f8, 0x676f02d9, 0x8d2a4c8a,
   0xfffa3942, 0x8771f681, 0x6d9d6122, 0xfde5380c,
   0xa4beea44, 0x4bdecfa9, 0xf6bb4b60, 0xbebfbc70,
   0x289b7ec6, 0xeaa127fa, 0xd4ef3085, 0x04881d05,
   0xd9d4d039, 0xe6db99e5, 0x1fa27cf8, 0xc4ac5665,
   0xf4292244, 0x432aff97, 0xab9423a7, 0xfc93a039,
   0x655b59c3, 0x8f0ccc92, 0xffeff47d, 0x85845dd1,
   0x6fa87e4f, 0xfe2ce6e0, 0xa3014314, 0x4e0811a1,
   0xf7537e82, 0xbd3af235, 0x2ad7d2bb, 0xeb86d391]"

type_synonym md5_state = "u32 \<times> u32 \<times> u32 \<times> u32"

definition md5_step :: "u32 list \<Rightarrow> nat \<Rightarrow> md5_state \<Rightarrow> md5_state" where
  "md5_step M i st = (case st of (a, b, c, d) \<Rightarrow>
     (let (f, g) =
            (if i < 16 then ((b AND c) OR (NOT b AND d), i)
             else if i < 32 then ((d AND b) OR (NOT d AND c), (5 * i + 1) mod 16)
             else if i < 48 then (b XOR c XOR d, (3 * i + 5) mod 16)
             else (c XOR (b OR NOT d), (7 * i) mod 16));
          f' = f + a + md5_K ! i + M ! g
      in (d, b + word_rotl (md5_s ! i) f', b, c)))"

definition md5_block :: "md5_state \<Rightarrow> byte list \<Rightarrow> md5_state" where
  "md5_block st blk = (case st of (a0, b0, c0, d0) \<Rightarrow>
     (case fold (md5_step (words_of blk)) [0..<64] st of (a, b, c, d) \<Rightarrow>
        (a0 + a, b0 + b, c0 + c, d0 + d)))"

definition md5_init :: md5_state where
  "md5_init = (0x67452301, 0xefcdab89, 0x98badcfe, 0x10325476)"

definition md5_digest :: "byte list \<Rightarrow> byte list" where
  "md5_digest m = (case fold (\<lambda>blk st. md5_block st blk) (chunks64 (md5_pad m)) md5_init of
     (a, b, c, d) \<Rightarrow> concat (map (word_le_bytes 4) [a, b, c, d]))"

definition hexdigest :: "byte list \<Rightarrow> string" where
  "hexdigest bs =
     concat (map (\<lambda>b. [digit_char (unat (drop_bit 4 b)), digit_char (unat (b AND 15))]) bs)"

definition md5_hex :: "string \<Rightarrow> string" where
  "md5_hex s = hexdigest (md5_digest (encode s))"

section \<open>The device, the log and the terminal\<close>

text \<open>
  A request is the URL and the query parameters handed to \<^verbatim>\<open>session.get\<close>. The device
  and the network are a function \<open>reply\<close>: the answer to the \<open>n\<close>-th request of the run.
  An answer is either a transport error (\<^verbatim>\<open>session.get\<close> raises) or an HTTP response,
  whose body is JSON text or not (\<^verbatim>\<open>response.json()\<close> raises). The HTTP status line is
  never looked at. \<open>sent\<close> records the requests made so far, \<open>logged\<close> the records
  given to the logger and \<open>printed\<close> what was written to standard output.
\<close>

type_synonym request = "string \<times> (string \<times> pyval) list"

datatype response = TransportError | Response "pyval option"

datatype log_record = LogInfo string | LogError string | LogException string exc

datatype out_item = Print string | Prompt string | PrintHelp

record env =
  reply :: "nat \<Rightarrow> request \<Rightarrow> response"
  sent :: "request list"
  logged :: "log_record list"
  printed :: "out_item list"

definition log :: "log_record \<Rightarrow> env \<Rightarrow> env" where
  "log r e = e\<lparr>logged := logged e @ [r]\<rparr>"

definition print :: "string \<Rightarrow> env \<Rightarrow> env" where
  "print s e = e\<lparr>printed := printed e @ [Print s]\<rparr>"

definition session_get :: "request \<Rightarrow> env \<Rightarrow> (exc + pyval option) \<times> env" where
  "session_get rq e =
     (let e' = e\<lparr>sent := sent e @ [rq]\<rparr>
      in case reply e (length (sent e)) rq of
           TransportError \<Rightarrow> (Inl RequestException, e')
         | Response body \<Rightarrow> (Inr body, e'))"

definition response_json :: "pyval option \<Rightarrow> exc + pyval" where
  "response_json body = (case body of None \<Rightarrow> Inl JSONDecodeError | Some data \<Rightarrow> Inr data)"

text \<open>
  The three lines each operation starts with:
  \<^verbatim>\<open>response = self.session.get(self.base_url, params=params); data = response.json()\<close>
  and the evaluation of \<^verbatim>\<open>data.get("status")\<close>. The result is \<open>data\<close> and its status.
\<close>

definition get_status :: "request \<Rightarrow> env \<Rightarrow> (exc + pyval \<times> pyval) \<times> env" where
  "get_status rq e =
     (case session_get rq e of
        (Inl x, e1) \<Rightarrow> (Inl x, e1)
      | (Inr response, e1) \<Rightarrow>
          (case response_json response of
             Inl x \<Rightarrow> (Inl x, e1)
           | Inr data \<Rightarrow>
               (case dict_get data ''status'' PNone of
                  Inl x \<Rightarrow> (Inl x, e1)
                | Inr status \<Rightarrow> (Inr (data, status), e1))))"

section \<open>MagewellSwitcher\<close>

text \<open>
  The attributes of the object. \<open>cached_sources\<close> is the attribute that the interactive
  mode adds to the object; \<open>None\<close> means that the object does not have it
  (\<^verbatim>\<open>hasattr\<close> is false). The \<^verbatim>\<open>requests.Session\<close> is the environment above.
\<close>

record MagewellSwitcher =
  ip_address :: string
  username :: string
  password :: string
  base_url :: string
  authenticated :: bool
  cached_sources :: "pyval option"

definition init :: "string \<Rightarrow> string \<Rightarrow> string \<Rightarrow> MagewellSwitcher" where
  "init ip user pw =
     \<lparr>ip_address = ip, username = user, password = pw,
      base_url = ''http://'' @ ip @ ''/mwapi'', authenticated = False, cached_sources = None\<rparr>"

definition hash_password :: "MagewellSwitcher \<Rightarrow> string" where
  "hash_password self = md5_hex (password self)"

text \<open>\<^verbatim>\<open>try: ... except Exception as e: ...\<close> around a computation on the object and the environment.\<close>

definition except_Exception ::
  "(exc + 'a) \<times> MagewellSwitcher \<times> env
   \<Rightarrow> (exc \<Rightarrow> MagewellSwitcher \<Rightarrow> env \<Rightarrow> (exc + 'a) \<times> MagewellSwitcher \<times> env)
   \<Rightarrow> (exc + 'a) \<times> MagewellSwitcher \<times> env" where
  "except_Exception body handler =
     (case body of
        (Inl x, self, e) \<Rightarrow> if is_Exception x then handler x self e else (Inl x, self, e)
      | (Inr r, self, e) \<Rightarrow> (Inr r, self, e))"

definition login_params :: "MagewellSwitcher \<Rightarrow> request" where
  "login_params self =
     (base_url self,
      [(''method'', PStr ''login''), (''id'', PStr (username self)), (''pass'', PStr (hash_password self))])"

definition login_try :: "MagewellSwitcher \<Rightarrow> env \<Rightarrow> (exc + bool) \<times> MagewellSwitcher \<times> env" where
  "login_try self e =
     (case get_status (login_params self) e of
        (Inl x, e1) \<Rightarrow> (Inl x, self, e1)
      | (Inr (data, status), e1) \<Rightarrow>
          if py_eq_zero status
          then (Inr True, self\<lparr>authenticated := True\<rparr>,
                log (LogInfo (''Successfully logged in to '' @ ip_address self)) e1)
          else (Inr False, self, log (LogError (''Login failed: '' @ py_str data)) e1))"

definition login :: "MagewellSwitcher \<Rightarrow> env \<Rightarrow> (exc + bool) \<times> MagewellSwitcher \<times> env" where
  "login self e =
     except_Exception (login_try self e)
       (\<lambda>x self1 e1. (Inr False, self1, log (LogException ''Login error: '' x) e1))"

definition check_auth :: "MagewellSwitcher \<Rightarrow> env \<Rightarrow> (exc + bool) \<times> MagewellSwitcher \<times> env" where
  "check_auth self e = (if \<not> authenticated self then login self e else (Inr True, self, e))"

definition get_channel_params :: "MagewellSwitcher \<Rightarrow> request" where
  "get_channel_params self = (base_url self, [(''method'', PStr ''get-channel'')])"

definition get_current_channel_try ::
  "MagewellSwitcher \<Rightarrow> env \<Rightarrow> (exc + pyval) \<times> MagewellSwitcher \<times> env" where
  "get_current_channel_try self e =
     (case get_status (get_channel_params self) e of
        (Inl x, e1) \<Rightarrow> (Inl x, self, e1)
      | (Inr (data, status), e1) \<Rightarrow>
          if py_eq_zero status then (Inr data, self, e1)
          else (Inr PNone, self, log (LogError (''Failed to get current channel: '' @ py_str data)) e1))"

definition get_current_channel ::
  "MagewellSwitcher \<Rightarrow> env \<Rightarrow> (exc + pyval) \<times> MagewellSwitcher \<times> env" where
  "get_current_channel self e =
     (case check_auth self e of
        (Inl x, self1, e1) \<Rightarrow> (Inl x, self1, e1)
      | (Inr ok, self1, e1) \<Rightarrow>
          if \<not> ok then (Inr PNone, self1, e1)
          else except_Exception (get_current_channel_try self1 e1)
                 (\<lambda>x self2 e2. (Inr PNone, self2,
                    log (LogException ''Error getting current channel: '' x) e2)))"

definition get_ndi_sources_params :: "MagewellSwitcher \<Rightarrow> request" where
  "get_ndi_sources_params self = (base_url self, [(''method'', PStr ''get-ndi-sources'')])"

definition get_ndi_sources_try ::
  "MagewellSwitcher \<Rightarrow> env \<Rightarrow> (exc + pyval) \<times> MagewellSwitcher \<times> env" where
  "get_ndi_sources_try self e =
     (case get_status (get_ndi_sources_params self) e of
        (Inl x, e1) \<Rightarrow> (Inl x, self, e1)
      | (Inr (data, status), e1) \<Rightarrow>
          if py_eq_zero status
          then (case dict_get data ''sources'' (PList []) of
                  Inl x \<Rightarrow> (Inl x, self, e1)
                | Inr sources \<Rightarrow> (Inr sources, self, e1))
          else (Inr PNone, self, log (LogError (''Failed to get NDI sources: '' @ py_str data)) e1))"

definition get_ndi_sources ::
  "MagewellSwitcher \<Rightarrow> env \<Rightarrow> (exc + pyval) \<times> MagewellSwitcher \<times> env" where
  "get_ndi_sources self e =
     (case check_auth self e of
        (Inl x, self1, e1) \<Rightarrow> (Inl x, self1, e1)
      | (Inr ok, self1, e1) \<Rightarrow>
          if \<not> ok then (Inr PNone, self1, e1)
          else except_Exception (get_ndi_sources_try self1 e1)
                 (\<lambda>x self2 e2. (Inr PNone, self2,
                    log (LogException ''Error getting NDI sources: '' x) e2)))"

definition set_channel_params :: "MagewellSwitcher \<Rightarrow> pyval \<Rightarrow> request" where
  "set_channel_params self source_name =
     (base_url self,
      [(''method'', PStr ''set-channel''), (''ndi-name'', PStr ''true''), (''name'', source_name)])"

definition set_channel_try ::
  "MagewellSwitcher \<Rightarrow> env \<Rightarrow> pyval \<Rightarrow> (exc + bool) \<times> MagewellSwitcher \<times> env" where
  "set_channel_try self e source_name =
     (case get_status (set_channel_params self source_name) e of
        (Inl x, e1) \<Rightarrow> (Inl x, self, e1)
      | (Inr (data, status), e1) \<Rightarrow>
          if py_eq_zero status
          then (Inr True, self,
                log (LogInfo (''Successfully switched to source: '' @ py_str source_name)) e1)
          else (Inr False, self, log (LogError (''Failed to set channel: '' @ py_str data)) e1))"

definition set_channel ::
  "MagewellSwitcher \<Rightarrow> env \<Rightarrow> pyval \<Rightarrow> (exc + bool) \<times> MagewellSwitcher \<times> env" where
  "set_channel self e source_name =
     (case check_auth self e of
        (Inl x, self1, e1) \<Rightarrow> (Inl x, self1, e1)
      | (Inr ok, self1, e1) \<Rightarrow>
          if \<not> ok then (Inr False, self1, e1)
          else except_Exception (set_channel_try self1 e1 source_name)
                 (\<lambda>x self2 e2. (Inr False, self2,
                    log (LogException ''Error setting channel: '' x) e2)))"

section \<open>Strings and numbers read from the terminal\<close>

text \<open>\<^verbatim>\<open>str.strip()\<close> removes the characters for which \<^verbatim>\<open>str.isspace\<close> holds.\<close>

definition is_space :: "char \<Rightarrow> bool" where
  "is_space c = (let n = (of_char c :: nat) in
     (0x09 \<le> n \<and> n \<le> 0x0D) \<or> (0x1C \<le> n \<and> n \<le> 0x20) \<or> n = 0x85 \<or> n = 0xA0)"

definition py_strip :: "string \<Rightarrow> string" where
  "py_strip s = rev (dropWhile is_space (rev (dropWhile is_space s)))"

text \<open>
  \<^verbatim>\<open>int(s)\<close> on a string: white space around the number is dropped (for \<^verbatim>\<open>int\<close> the
  characters \<^verbatim>\<open>0x1C\<close> to \<^verbatim>\<open>0x1F\<close> are not white space), then comes an optional sign
  and decimal digits, where single underscores may stand between digits. Anything else
  raises \<^verbatim>\<open>ValueError\<close>, and so does a number of more than 4300 digits (the default
  limit of the interpreter on conversions between \<^verbatim>\<open>str\<close> and \<^verbatim>\<open>int\<close>).
\<close>

definition is_int_space :: "char \<Rightarrow> bool" where
  "is_int_space c = (let n = (of_char c :: nat) in
     (0x09 \<le> n \<and> n \<le> 0x0D) \<or> n = 0x20 \<or> n = 0x85 \<or> n = 0xA0)"

definition is_digit :: "char \<Rightarrow> bool" where
  "is_digit c = (let n = (of_char c :: nat) in 0x30 \<le> n \<and> n \<le> 0x39)"

fun digits_ok :: "string \<Rightarrow> bool" where
  "digits_ok [] = False"
| "digits_ok [c] = is_digit c"
| "digits_ok (c # d # r) =
     (is_digit c \<and>
      (if d = CHR ''_'' then (case r of [] \<Rightarrow> False | x # _ \<Rightarrow> is_digit x) \<and> digits_ok r
       else digits_ok (d # r)))"

definition digits_value :: "string \<Rightarrow> int" where
  "digits_value ds = foldl (\<lambda>acc c. 10 * acc + (int (of_char c) - 0x30)) 0 ds"

definition int_max_str_digits :: nat where
  "int_max_str_digits = 4300"

definition py_int :: "string \<Rightarrow> exc + int" where
  "py_int s =
     (let t = rev (dropWhile is_int_space (rev (dropWhile is_int_space s)));
          (neg, body) = (case t of
                           c # r \<Rightarrow> if c = CHR ''-'' then (True, r)
                                    else if c = CHR ''+'' then (False, r) else (False, t)
                         | [] \<Rightarrow> (False, t));
          ds = filter is_digit body
      in if \<not> digits_ok body \<or> int_max_str_digits < length ds then Inl ValueError
         else Inr (if neg then - digits_value ds else digits_value ds))"

text \<open>
  \<^verbatim>\<open>input(prompt)\<close> writes the prompt and reads one line, without its newline. The lines
  that standard input still holds are passed along; at the end of the input the call
  raises \<^verbatim>\<open>EOFError\<close>.
\<close>

definition write_prompt :: "string \<Rightarrow> env \<Rightarrow> env" where
  "write_prompt prompt e = e\<lparr>printed := printed e @ [Prompt prompt]\<rparr>"

definition py_input :: "string \<Rightarrow> env \<Rightarrow> string list \<Rightarrow> (exc + string) \<times> env \<times> string list" where
  "py_input prompt e inp =
     (case inp of
        [] \<Rightarrow> (Inl EOFError, write_prompt prompt e, [])
      | line # rest \<Rightarrow> (Inr line, write_prompt prompt e, rest))"

section \<open>Sequences\<close>

text \<open>
  \<^verbatim>\<open>enumerate(x, 1)\<close> iterates a list over its elements, a dict over its keys and a string
  over its characters; any other value is not iterable. \<^verbatim>\<open>len(x)\<close> and \<^verbatim>\<open>x[i]\<close>
  likewise; a dict with string keys has no integer key, so \<^verbatim>\<open>x[i]\<close> raises \<^verbatim>\<open>KeyError\<close>.
\<close>

fun py_iter :: "pyval \<Rightarrow> exc + pyval list" where
  "py_iter (PList xs) = Inr xs"
| "py_iter (PDict kvs) = Inr (map (\<lambda>kv. PStr (fst kv)) kvs)"
| "py_iter (PStr s) = Inr (map (\<lambda>c. PStr [c]) s)"
| "py_iter _ = Inl TypeError"

fun py_len :: "pyval \<Rightarrow> exc + nat" where
  "py_len (PList xs) = Inr (length xs)"
| "py_len (PDict kvs) = Inr (length kvs)"
| "py_len (PStr s) = Inr (length s)"
| "py_len _ = Inl TypeError"

definition list_item :: "'a list \<Rightarrow> int \<Rightarrow> exc + 'a" where
  "list_item xs i =
     (if 0 \<le> i
      then (if i < int (length xs) then Inr (xs ! nat i) else Inl IndexError)
      else (if - i \<le> int (length xs) then Inr (xs ! nat (int (length xs) + i))
            else Inl IndexError))"

fun py_getitem :: "pyval \<Rightarrow> int \<Rightarrow> exc + pyval" where
  "py_getitem (PList xs) i = list_item xs i"
| "py_getitem (PStr s) i = (case list_item s i of Inl x \<Rightarrow> Inl x | Inr c \<Rightarrow> Inr (PStr [c]))"
| "py_getitem (PDict kvs) i = Inl KeyError"
| "py_getitem _ i = Inl TypeError"

section \<open>display\_ndi\_sources\<close>

text \<open>
  One pass of the \<^verbatim>\<open>for\<close> loop per source, from index \<open>idx\<close> on. Both \<^verbatim>\<open>get\<close> calls
  and the whole f-string are evaluated before the row is printed.
\<close>

fun display_rows :: "nat \<Rightarrow> pyval list \<Rightarrow> env \<Rightarrow> (exc + unit) \<times> env" where
  "display_rows idx [] e = (Inr (), e)"
| "display_rows idx (source # rest) e =
     (case dict_get source ''ndi-name'' (PStr ''Unknown'') of
        Inl x \<Rightarrow> (Inl x, e)
      | Inr name \<Rightarrow>
          (case dict_get source ''ip-addr'' (PStr ''Unknown'') of
             Inl x \<Rightarrow> (Inl x, e)
           | Inr ip \<Rightarrow>
               (case format_left 60 name of
                  Inl x \<Rightarrow> (Inl x, e)
                | Inr name_col \<Rightarrow>
                    (case format_left 15 ip of
                       Inl x \<Rightarrow> (Inl x, e)
                     | Inr ip_col \<Rightarrow>
                         display_rows (Suc idx) rest
                           (print (rjust 3 (str_of_nat idx) @ '' | '' @ name_col @ '' | '' @ ip_col) e)))))"

definition display_ndi_sources :: "pyval \<Rightarrow> env \<Rightarrow> (exc + unit) \<times> env" where
  "display_ndi_sources sources e =
     (if \<not> truthy sources then (Inr (), print ''No NDI sources available.'' e)
      else
        (let e1 = print (CHR 0x0A # ''Available NDI Sources:'') e;
             e2 = print (replicate 80 CHR ''-'') e1;
             e3 = print (ljust 3 ''#'' @ '' | '' @ ljust 60 ''Source Name'' @ '' | '' @ ljust 15 ''IP Address'') e2;
             e4 = print (replicate 80 CHR ''-'') e3
         in case py_iter sources of
              Inl x \<Rightarrow> (Inl x, e4)
            | Inr items \<Rightarrow> display_rows 1 items e4))"

text \<open>
  What both \<^verbatim>\<open>main\<close> and the interactive mode do with the result of
  \<^verbatim>\<open>get_current_channel\<close> (the \<^verbatim>\<open>if channel: ... else: ...\<close> statement).
\<close>

definition show_channel :: "pyval \<Rightarrow> env \<Rightarrow> (exc + unit) \<times> env" where
  "show_channel channel e =
     (if truthy channel then
        (let e1 = print (CHR 0x0A # ''Current Channel:'') e
         in case dict_get channel ''name'' (PStr ''Unknown'') of
              Inl x \<Rightarrow> (Inl x, e1)
            | Inr name \<Rightarrow>
                (let e2 = print (''Name: '' @ py_str name) e1
                 in case dict_get channel ''ndi-name'' PNone of
                      Inl x \<Rightarrow> (Inl x, e2)
                    | Inr ndi \<Rightarrow> (Inr (), print (''NDI: '' @ (if truthy ndi then ''Yes'' else ''No'')) e2)))
      else (Inr (), print ''Failed to retrieve current channel.'' e))"

section \<open>The interactive mode\<close>

text \<open>
  One pass through the body of \<^verbatim>\<open>while True:\<close> ends in one of three ways: the loop goes
  on (the end of the body or \<^verbatim>\<open>continue\<close>), the loop is left (\<^verbatim>\<open>break\<close>), or an
  exception leaves the function. Each carries the object, the environment and the lines
  not yet read.
\<close>

type_synonym shell = "MagewellSwitcher \<times> env \<times> string list"

datatype flow = Continue shell | Break shell | Raise exc shell

definition option_prompt :: string where
  "option_prompt = CHR 0x0A # ''Enter option (1-4): ''"

definition source_prompt :: string where
  "source_prompt = CHR 0x0A # ''Enter source number to select (or 0 to cancel): ''"

definition menu :: "env \<Rightarrow> env" where
  "menu e =
     print ''4. Exit''
       (print ''3. Switch to a source''
          (print ''2. List NDI sources''
             (print ''1. Show current channel''
                (print (CHR 0x0A # ''Options:'') e))))"

text \<open>The branch \<^verbatim>\<open>choice == "1"\<close>.\<close>

definition option_current :: "MagewellSwitcher \<Rightarrow> env \<Rightarrow> string list \<Rightarrow> flow" where
  "option_current self e inp =
     (case get_current_channel self e of
        (Inl x, self1, e1) \<Rightarrow> Raise x (self1, e1, inp)
      | (Inr channel, self1, e1) \<Rightarrow>
          (case show_channel channel e1 of
             (Inl x, e2) \<Rightarrow> Raise x (self1, e2, inp)
           | (Inr u, e2) \<Rightarrow> Continue (self1, e2, inp)))"

text \<open>The branch \<^verbatim>\<open>choice == "2"\<close>.\<close>

definition option_list :: "MagewellSwitcher \<Rightarrow> env \<Rightarrow> string list \<Rightarrow> flow" where
  "option_list self e inp =
     (case get_ndi_sources self e of
        (Inl x, self1, e1) \<Rightarrow> Raise x (self1, e1, inp)
      | (Inr sources, self1, e1) \<Rightarrow>
          if truthy sources then
            (case display_ndi_sources sources e1 of
               (Inl x, e2) \<Rightarrow> Raise x (self1, e2, inp)
             | (Inr u, e2) \<Rightarrow> Continue (self1\<lparr>cached_sources := Some sources\<rparr>, e2, inp))
          else Continue (self1, print ''Failed to retrieve NDI sources.'' e1, inp))"

text \<open>
  The body of the \<^verbatim>\<open>try\<close> statement of the branch \<^verbatim>\<open>choice == "3"\<close>. In
  \<^verbatim>\<open>1 <= idx <= len(switcher.cached_sources)\<close> the right comparison is evaluated only
  when the left one holds.
\<close>

definition select_source_try :: "MagewellSwitcher \<Rightarrow> env \<Rightarrow> string list \<Rightarrow> flow" where
  "select_source_try self e inp =
     (case py_input source_prompt e inp of
        (Inl x, e1, inp1) \<Rightarrow> Raise x (self, e1, inp1)
      | (Inr line, e1, inp1) \<Rightarrow>
          (case py_int line of
             Inl x \<Rightarrow> Raise x (self, e1, inp1)
           | Inr idx \<Rightarrow>
               if idx = 0 then Continue (self, e1, inp1)
               else if \<not> 1 \<le> idx then Continue (self, print ''Invalid source number.'' e1, inp1)
               else
                 (case cached_sources self of
                    None \<Rightarrow> Raise AttributeError (self, e1, inp1)
                  | Some cached \<Rightarrow>
                      (case py_len cached of
                         Inl x \<Rightarrow> Raise x (self, e1, inp1)
                       | Inr n \<Rightarrow>
                           if \<not> idx \<le> int n
                           then Continue (self, print ''Invalid source number.'' e1, inp1)
                           else
                             (case py_getitem cached (idx - 1) of
                                Inl x \<Rightarrow> Raise x (self, e1, inp1)
                              | Inr source \<Rightarrow>
                                  (case dict_get source ''ndi-name'' PNone of
                                     Inl x \<Rightarrow> Raise x (self, e1, inp1)
                                   | Inr source_name \<Rightarrow>
                                       (case set_channel self e1 source_name of
                                          (Inl x, self1, e2) \<Rightarrow> Raise x (self1, e2, inp1)
                                        | (Inr ok, self1, e2) \<Rightarrow>
                                            Continue (self1,
                                              print ((if ok then ''Successfully switched to: ''
                                                      else ''Failed to switch to: '') @ py_str source_name) e2,
                                              inp1))))))))"

text \<open>The \<^verbatim>\<open>try\<close> statement with its handler \<^verbatim>\<open>except ValueError\<close>.\<close>

definition select_source :: "MagewellSwitcher \<Rightarrow> env \<Rightarrow> string list \<Rightarrow> flow" where
  "select_source self e inp =
     (case select_source_try self e inp of
        Raise x (self1, e1, inp1) \<Rightarrow>
          if x = ValueError then Continue (self1, print ''Please enter a valid number.'' e1, inp1)
          else Raise x (self1, e1, inp1)
      | Continue st \<Rightarrow> Continue st
      | Break st \<Rightarrow> Break st)"

text \<open>The branch \<^verbatim>\<open>choice == "3"\<close>.\<close>

definition option_switch :: "MagewellSwitcher \<Rightarrow> env \<Rightarrow> string list \<Rightarrow> flow" where
  "option_switch self e inp =
     (if (case cached_sources self of None \<Rightarrow> True | Some cached \<Rightarrow> \<not> truthy cached) then
        (case get_ndi_sources self (print ''Fetching available sources first...'' e) of
           (Inl x, self1, e1) \<Rightarrow> Raise x (self1, e1, inp)
         | (Inr sources, self1, e1) \<Rightarrow>
             if truthy sources then
               (case display_ndi_sources sources e1 of
                  (Inl x, e2) \<Rightarrow> Raise x (self1, e2, inp)
                | (Inr u, e2) \<Rightarrow> select_source (self1\<lparr>cached_sources := Some sources\<rparr>) e2 inp)
             else Continue (self1, print ''Failed to retrieve sources. Please try again.'' e1, inp))
      else select_source self e inp)"

definition loop_body :: "MagewellSwitcher \<Rightarrow> env \<Rightarrow> string list \<Rightarrow> flow" where
  "loop_body self e inp =
     (case py_input option_prompt (menu e) inp of
        (Inl x, e1, inp1) \<Rightarrow> Raise x (self, e1, inp1)
      | (Inr line, e1, inp1) \<Rightarrow>
          (let choice = py_strip line
           in if choice = ''1'' then option_current self e1 inp1
              else if choice = ''2'' then option_list self e1 inp1
              else if choice = ''3'' then option_switch self e1 inp1
              else if choice = ''4'' then Break (self, print ''Exiting...'' e1, inp1)
              else Continue (self, print ''Invalid option. Please try again.'' e1, inp1)))"

function run_loop :: "MagewellSwitcher \<Rightarrow> env \<Rightarrow> string list \<Rightarrow> (exc + unit) \<times> shell" where
  "run_loop self e inp =
     (case loop_body self e inp of
        Continue (self1, e1, inp1) \<Rightarrow> run_loop self1 e1 inp1
      | Break st \<Rightarrow> (Inr (), st)
      | Raise x st \<Rightarrow> (Inl x, st))"
  by pat_completeness auto

termination
proof (relation "measure (\<lambda>(self, e, inp). length inp)")
  show "wf (measure (\<lambda>(self, e, inp). length inp))"
    by simp
next
  fix self e inp st self1 rest e1 inp1
  assume body: "loop_body self e inp = Continue st" and st: "(self1, rest) = st" "(e1, inp1) = rest"
  have sel: "length i' < Suc (length i)"
    if "select_source s0 e0 i = Continue (s', e', i')" for s0 e0 i s' e' i'
    using that
    by (auto simp add: select_source_def select_source_try_def py_input_def Let_def
             split: list.splits sum.splits prod.splits option.splits if_splits flow.splits)
  have "length inp1 < length inp"
    using body st sel
    by (auto simp add: loop_body_def option_current_def option_list_def option_switch_def
                       py_input_def Let_def
             split: list.splits sum.splits prod.splits option.splits if_splits)
  then show "((self1, e1, inp1), (self, e, inp)) \<in> measure (\<lambda>(self, e, inp). length inp)"
    by simp
qed

declare run_loop.simps [simp del]

definition run_interactive_mode ::
  "MagewellSwitcher \<Rightarrow> env \<Rightarrow> string list \<Rightarrow> (exc + unit) \<times> shell" where
  "run_interactive_mode switcher e inp =
     run_loop switcher
       (print (''Connected to: '' @ ip_address switcher)
          (print (CHR 0x0A # ''Magewell Switcher Interactive Mode'') e))
       inp"

section \<open>main\<close>

text \<open>
  The arguments as \<^verbatim>\<open>parser.parse_args()\<close> returns them: \<^verbatim>\<open>--ip\<close>, \<^verbatim>\<open>--username\<close> and
  \<^verbatim>\<open>--password\<close> (both with the default \<^verbatim>\<open>"Admin"\<close> filled in), and the subcommand, if
  one was given. \<open>PrintHelp\<close> is the usage text of \<^verbatim>\<open>parser.print_help()\<close>.
\<close>

datatype command = CmdCurrent | CmdList | CmdSet string | CmdInteractive

record args =
  arg_ip :: string
  arg_username :: string
  arg_password :: string
  arg_command :: "command option"

definition main :: "args \<Rightarrow> env \<Rightarrow> string list \<Rightarrow> (exc + unit) \<times> env \<times> string list" where
  "main a e inp =
     (let switcher = init (arg_ip a) (arg_username a) (arg_password a)
      in case login switcher e of
           (Inl x, switcher1, e1) \<Rightarrow> (Inl x, e1, inp)
         | (Inr ok, switcher1, e1) \<Rightarrow>
             if \<not> ok
             then (Inl (SystemExit 1),
                   print (''Failed to authenticate with switcher at '' @ arg_ip a) e1, inp)
             else
               (case arg_command a of
                  Some CmdCurrent \<Rightarrow>
                    (case get_current_channel switcher1 e1 of
                       (Inl x, switcher2, e2) \<Rightarrow> (Inl x, e2, inp)
                     | (Inr channel, switcher2, e2) \<Rightarrow>
                         (case show_channel channel e2 of (r, e3) \<Rightarrow> (r, e3, inp)))
                | Some CmdList \<Rightarrow>
                    (case get_ndi_sources switcher1 e1 of
                       (Inl x, switcher2, e2) \<Rightarrow> (Inl x, e2, inp)
                     | (Inr sources, switcher2, e2) \<Rightarrow>
                         if truthy sources
                         then (case display_ndi_sources sources e2 of (r, e3) \<Rightarrow> (r, e3, inp))
                         else (Inr (), print ''Failed to retrieve NDI sources.'' e2, inp))
                | Some (CmdSet source) \<Rightarrow>
                    (case set_channel switcher1 e1 (PStr source) of
                       (Inl x, switcher2, e2) \<Rightarrow> (Inl x, e2, inp)
                     | (Inr ok2, switcher2, e2) \<Rightarrow>
                         (Inr (),
                          print ((if ok2 then ''Successfully switched to: ''
                                  else ''Failed to switch to: '') @ source) e2,
                          inp))
                | Some CmdInteractive \<Rightarrow>
                    (case run_interactive_mode switcher1 e1 inp of
                       (r, switcher2, e2, inp2) \<Rightarrow> (r, e2, inp2))
                | None \<Rightarrow> (Inr (), e1\<lparr>printed := printed e1 @ [PrintHelp]\<rparr>, inp)))"

text \<open>
  The exit status of the process: 0 when \<^verbatim>\<open>main\<close> returns, the argument of
  \<^verbatim>\<open>sys.exit\<close> when it raised \<^verbatim>\<open>SystemExit\<close>, and 1 when any other exception reaches
  the top level (the interpreter prints the traceback and exits with 1).
\<close>

definition exit_status :: "exc + unit \<Rightarrow> int" where
  "exit_status r = (case r of Inr u \<Rightarrow> 0 | Inl (SystemExit n) \<Rightarrow> n | Inl x \<Rightarrow> 1)"

section \<open>Notions used in the statements\<close>

text \<open>
  The device reports success: the answer is an HTTP response whose body is a JSON object
  with a \<^verbatim>\<open>status\<close> that equals \<^verbatim>\<open>0\<close>, as \<^verbatim>\<open>==\<close> compares (the number 0, also
  written \<^verbatim>\<open>0.0\<close>, and \<^verbatim>\<open>false\<close>). A transport error, a body that is not JSON, a
  body that is not an object, and an object with another status or without one all make
  this false.
\<close>

definition status_zero :: "response \<Rightarrow> bool" where
  "status_zero r =
     (case r of
        Response (Some (PDict kvs)) \<Rightarrow>
          (case map_of kvs ''status'' of Some st \<Rightarrow> py_eq_zero st | None \<Rightarrow> False)
      | _ \<Rightarrow> False)"

text \<open>The answer that the environment gives to the next request, if it is \<open>rq\<close>.\<close>

definition next_reply :: "env \<Rightarrow> request \<Rightarrow> response" where
  "next_reply e rq = reply e (length (sent e)) rq"

text \<open>
  The row that \<^verbatim>\<open>f"{idx:3} | {name:<60} | {ip:<15}"\<close> gives for an index and two strings.
\<close>

definition source_row :: "nat \<Rightarrow> string \<Rightarrow> string \<Rightarrow> string" where
  "source_row idx name ip = rjust 3 (str_of_nat idx) @ '' | '' @ ljust 60 name @ '' | '' @ ljust 15 ip"

text \<open>
  The text of a field of a source as the table shows it, for a source that is a JSON object
  whose field is a string or is absent (then the text is \<^verbatim>\<open>Unknown\<close>); \<open>None\<close> for
  anything else.
\<close>

fun text_field :: "pyval \<Rightarrow> string \<Rightarrow> string option" where
  "text_field (PDict kvs) k =
     (case map_of kvs k of None \<Rightarrow> Some ''Unknown'' | Some (PStr s) \<Rightarrow> Some s | Some _ \<Rightarrow> None)"
| "text_field _ k = None"

text \<open>A text cut or filled with spaces to exactly \<open>w\<close> characters.\<close>

definition truncated_or_padded :: "nat \<Rightarrow> string \<Rightarrow> string" where
  "truncated_or_padded w s = take w s @ replicate (w - length s) CHR '' ''"

text \<open>The environment once a pass of the loop has shown the menu and asked for the option.\<close>

definition asked :: "env \<Rightarrow> env" where
  "asked e = write_prompt option_prompt (menu e)"

text \<open>The object, the environment and the remaining input at the end of a pass.\<close>

fun flow_shell :: "flow \<Rightarrow> shell" where
  "flow_shell (Continue st) = st"
| "flow_shell (Break st) = st"
| "flow_shell (Raise x st) = st"

text \<open>
  The state in which pass \<open>n + 1\<close> of the loop starts, when each of the first \<open>n\<close> passes
  ended with the loop going on; \<open>None\<close> when one of them left the loop or raised.
\<close>

fun passes :: "nat \<Rightarrow> shell \<Rightarrow> shell option" where
  "passes 0 st = Some st"
| "passes (Suc n) (self, e, inp) =
     (case loop_body self e inp of Continue st' \<Rightarrow> passes n st' | _ \<Rightarrow> None)"

text \<open>Example values: a fresh object, and an environment whose device is \<open>f\<close>.\<close>

definition ex_switcher :: MagewellSwitcher where
  "ex_switcher = init ''10.0.0.9'' ''Admin'' ''password''"

definition ex_env :: "(nat \<Rightarrow> request \<Rightarrow> response) \<Rightarrow> env" where
  "ex_env f = \<lparr>reply = f, sent = [], logged = [], printed = []\<rparr>"

definition ok_body :: "(string \<times> pyval) list \<Rightarrow> response" where
  "ok_body kvs = Response (Some (PDict ((''status'', PInt 0) # kvs)))"

text \<open>Three sources, and an authenticated object that has them cached.\<close>

definition ex_sources :: pyval where
  "ex_sources =
     PList [PDict [(''ndi-name'', PStr ''CAM-1''), (''ip-addr'', PStr ''10.0.0.5'')],
            PDict [(''ndi-name'', PStr ''CAM-2''), (''ip-addr'', PStr ''10.0.0.6'')],
            PDict [(''ndi-name'', PStr ''CAM-3'')]]"

definition ex_cached :: MagewellSwitcher where
  "ex_cached = ex_switcher\<lparr>authenticated := True, cached_sources := Some ex_sources\<rparr>"

section \<open>The four operations\<close>

lemma dict_get_cases:
  "dict_get data k d =
     (case data of PDict kvs \<Rightarrow> Inr (case map_of kvs k of Some v \<Rightarrow> v | None \<Rightarrow> d)
      | _ \<Rightarrow> Inl AttributeError)"
  by (cases data) simp_all

lemma get_status_env: "snd (get_status rq e) = e\<lparr>sent := sent e @ [rq]\<rparr>"
  by (simp add: get_status_def session_get_def Let_def
           split: response.splits sum.splits)

lemma get_status_Inl: "fst (get_status rq e) = Inl x \<Longrightarrow> is_Exception x \<and> \<not> status_zero (next_reply e rq)"
  by (auto simp add: get_status_def session_get_def response_json_def Let_def dict_get_cases
                     status_zero_def next_reply_def
           split: response.splits option.splits pyval.splits)

lemma get_status_Inr:
  "fst (get_status rq e) = Inr (data, st) \<Longrightarrow>
     next_reply e rq = Response (Some data) \<and> dict_get data ''status'' PNone = Inr st
     \<and> py_eq_zero st = status_zero (next_reply e rq)"
  by (auto simp add: get_status_def session_get_def response_json_def Let_def dict_get_cases
                     status_zero_def next_reply_def
           split: response.splits option.splits pyval.splits)

lemma login_cases:
  "login self e =
     (if status_zero (next_reply e (login_params self))
      then (Inr True, self\<lparr>authenticated := True\<rparr>, snd (snd (login self e)))
      else (Inr False, self, snd (snd (login self e))))"
proof (cases "fst (get_status (login_params self) e)")
  case (Inl x)
  then show ?thesis
    using get_status_Inl [OF Inl]
    by (cases "get_status (login_params self) e")
       (simp add: login_def login_try_def except_Exception_def)
next
  case (Inr p)
  obtain data st where p: "p = (data, st)" by (cases p)
  show ?thesis
    using Inr get_status_Inr [of "login_params self" e data st]
    by (cases "get_status (login_params self) e")
       (simp add: p login_def login_try_def except_Exception_def)
qed

lemma login_env:
  "sent (snd (snd (login self e))) = sent e @ [login_params self]
   \<and> reply (snd (snd (login self e))) = reply e
   \<and> printed (snd (snd (login self e))) = printed e"
proof -
  have "snd (get_status (login_params self) e) = e\<lparr>sent := sent e @ [login_params self]\<rparr>"
    by (rule get_status_env)
  then show ?thesis
    by (cases "get_status (login_params self) e")
       (auto simp add: login_def login_try_def except_Exception_def log_def
             split: sum.splits prod.splits)
qed


lemma check_auth_Inr: "\<exists>ok. fst (check_auth self e) = Inr ok"
  by (simp add: check_auth_def) (subst login_cases, auto)

lemma current_try:
  "fst (except_Exception (get_current_channel_try self e)
          (\<lambda>x self2 e2. (Inr PNone, self2, log (LogException ''Error getting current channel: '' x) e2)))
   = Inr (case next_reply e (get_channel_params self) of
            Response (Some data) \<Rightarrow> if status_zero (Response (Some data)) then data else PNone
          | _ \<Rightarrow> PNone)"
  by (auto simp add: get_current_channel_try_def except_Exception_def get_status_def session_get_def
                     response_json_def Let_def dict_get_cases status_zero_def next_reply_def
           split: response.splits option.splits pyval.splits)

lemma sources_try:
  "fst (except_Exception (get_ndi_sources_try self e)
          (\<lambda>x self2 e2. (Inr PNone, self2, log (LogException ''Error getting NDI sources: '' x) e2)))
   = Inr (case next_reply e (get_ndi_sources_params self) of
            Response (Some (PDict kvs)) \<Rightarrow>
              if status_zero (Response (Some (PDict kvs)))
              then (case map_of kvs ''sources'' of Some v \<Rightarrow> v | None \<Rightarrow> PList [])
              else PNone
          | _ \<Rightarrow> PNone)"
  by (auto simp add: get_ndi_sources_try_def except_Exception_def get_status_def session_get_def
                     response_json_def Let_def dict_get_cases status_zero_def next_reply_def
           split: response.splits option.splits pyval.splits)

lemma set_try:
  "fst (except_Exception (set_channel_try self e name)
          (\<lambda>x self2 e2. (Inr False, self2, log (LogException ''Error setting channel: '' x) e2)))
   = Inr (status_zero (next_reply e (set_channel_params self name)))"
  by (auto simp add: set_channel_try_def except_Exception_def get_status_def session_get_def
                     response_json_def Let_def dict_get_cases status_zero_def next_reply_def
           split: response.splits option.splits pyval.splits)

lemma current_unfold:
  "check_auth self e = (Inr ok, self1, e1) \<Longrightarrow>
   get_current_channel self e =
     (if \<not> ok then (Inr PNone, self1, e1)
      else except_Exception (get_current_channel_try self1 e1)
             (\<lambda>x self2 e2. (Inr PNone, self2, log (LogException ''Error getting current channel: '' x) e2)))"
  by (simp add: get_current_channel_def)

lemma sources_unfold:
  "check_auth self e = (Inr ok, self1, e1) \<Longrightarrow>
   get_ndi_sources self e =
     (if \<not> ok then (Inr PNone, self1, e1)
      else except_Exception (get_ndi_sources_try self1 e1)
             (\<lambda>x self2 e2. (Inr PNone, self2, log (LogException ''Error getting NDI sources: '' x) e2)))"
  by (simp add: get_ndi_sources_def)

lemma set_unfold:
  "check_auth self e = (Inr ok, self1, e1) \<Longrightarrow>
   set_channel self e name =
     (if \<not> ok then (Inr False, self1, e1)
      else except_Exception (set_channel_try self1 e1 name)
             (\<lambda>x self2 e2. (Inr False, self2, log (LogException ''Error setting channel: '' x) e2)))"
  by (simp add: set_channel_def)

lemma check_auth_obtain:
  obtains ok self1 e1 where "check_auth self e = (Inr ok, self1, e1)"
  using check_auth_Inr [of self e] by (cases "check_auth self e") auto

lemma current_Inr: "\<exists>v. fst (get_current_channel self e) = Inr v"
proof -
  obtain ok self1 e1 where c: "check_auth self e = (Inr ok, self1, e1)" by (rule check_auth_obtain)
  show ?thesis by (simp add: current_unfold [OF c] current_try)
qed

lemma sources_Inr: "\<exists>v. fst (get_ndi_sources self e) = Inr v"
proof -
  obtain ok self1 e1 where c: "check_auth self e = (Inr ok, self1, e1)" by (rule check_auth_obtain)
  show ?thesis by (simp add: sources_unfold [OF c] sources_try)
qed

lemma set_Inr: "\<exists>v. fst (set_channel self e name) = Inr v"
proof -
  obtain ok self1 e1 where c: "check_auth self e = (Inr ok, self1, e1)" by (rule check_auth_obtain)
  show ?thesis by (auto simp add: set_unfold [OF c] set_try)
qed

lemma current_fail:
  assumes "check_auth self e = (Inr ok, self1, e1)"
    and "\<not> ok \<or> \<not> status_zero (next_reply e1 (get_channel_params self1))"
  shows "fst (get_current_channel self e) = Inr PNone"
  using assms(2)
  by (auto simp add: current_unfold [OF assms(1)] current_try split: response.splits option.splits)

lemma sources_fail:
  assumes "check_auth self e = (Inr ok, self1, e1)"
    and "\<not> ok \<or> \<not> status_zero (next_reply e1 (get_ndi_sources_params self1))"
  shows "fst (get_ndi_sources self e) = Inr PNone"
  using assms(2)
  by (auto simp add: sources_unfold [OF assms(1)] sources_try
           split: response.splits option.splits pyval.splits)

lemma set_fail:
  assumes "check_auth self e = (Inr ok, self1, e1)"
    and "\<not> ok \<or> \<not> status_zero (next_reply e1 (set_channel_params self1 name))"
  shows "fst (set_channel self e name) = Inr False"
  using assms(2)
  by (auto simp add: set_unfold [OF assms(1)] set_try)

lemma status_zero_failures:
  "\<not> status_zero TransportError" "\<not> status_zero (Response None)"
  "map_of kvs ''status'' = Some st \<Longrightarrow> \<not> py_eq_zero st \<Longrightarrow> \<not> status_zero (Response (Some (PDict kvs)))"
  by (simp_all add: status_zero_def)


lemma try_sent:
  "sent (snd (snd (except_Exception (get_current_channel_try self e)
      (\<lambda>x self2 e2. (Inr PNone, self2, log (LogException a x) e2))))) = sent e @ [get_channel_params self]"
  "sent (snd (snd (except_Exception (get_ndi_sources_try self e)
      (\<lambda>x self2 e2. (Inr PNone, self2, log (LogException b x) e2))))) = sent e @ [get_ndi_sources_params self]"
  "sent (snd (snd (except_Exception (set_channel_try self e name)
      (\<lambda>x self2 e2. (Inr False, self2, log (LogException c x) e2))))) = sent e @ [set_channel_params self name]"
  using get_status_env [of "get_channel_params self" e]
        get_status_env [of "get_ndi_sources_params self" e]
        get_status_env [of "set_channel_params self name" e]
  by (auto simp add: get_current_channel_try_def get_ndi_sources_try_def set_channel_try_def
                     except_Exception_def log_def
           split: sum.splits prod.splits)

lemma md5_password: "md5_hex ''password'' = ''5f4dcc3b5aa765d61d8327deb882cf99''"
  by code_simp

section \<open>Claims on the session\<close>

text \<open>
  C2. \<^verbatim>\<open>login\<close> returns true exactly when the device reports status 0 (the body is
  a JSON object whose \<^verbatim>\<open>status\<close> satisfies \<^verbatim>\<open>== 0\<close>), and then the object is
  authenticated; on any other answer it returns false and leaves the object as it
  was; a transport error or a body that is not JSON is such an answer, so \<^verbatim>\<open>login\<close>
  returns false and raises nothing.
\<close>

theorem login_true_iff_status_zero:
  "(fst (login self e) = Inr True \<longleftrightarrow> status_zero (next_reply e (login_params self)))
   \<and> (status_zero (next_reply e (login_params self)) \<longrightarrow>
        fst (snd (login self e)) = self\<lparr>authenticated := True\<rparr>)
   \<and> (\<not> status_zero (next_reply e (login_params self)) \<longrightarrow>
        fst (login self e) = Inr False \<and> fst (snd (login self e)) = self)
   \<and> (next_reply e (login_params self) = TransportError
        \<or> next_reply e (login_params self) = Response None \<longrightarrow>
        fst (login self e) = Inr False)"
  by (subst (1 2 3 4 5) login_cases) (auto simp add: status_zero_def)

theorem login_true_iff_status_zero_witness:
  "fst (login ex_switcher (ex_env (\<lambda>n rq. ok_body []))) = Inr True
   \<and> authenticated (fst (snd (login ex_switcher (ex_env (\<lambda>n rq. ok_body [])))))
   \<and> fst (login ex_switcher (ex_env (\<lambda>n rq. TransportError))) = Inr False
   \<and> \<not> authenticated (fst (snd (login ex_switcher (ex_env (\<lambda>n rq. TransportError)))))"
  using login_true_iff_status_zero [of ex_switcher "ex_env (\<lambda>n rq. ok_body [])"]
        login_true_iff_status_zero [of ex_switcher "ex_env (\<lambda>n rq. TransportError)"]
  by (simp add: status_zero_def next_reply_def ex_env_def ok_body_def ex_switcher_def init_def)

text \<open>
  C3. When the object is authenticated, \<^verbatim>\<open>_check_auth\<close> returns true and makes no
  request. When it is not, \<^verbatim>\<open>_check_auth\<close> is one call of \<^verbatim>\<open>login\<close>, which makes one
  request, and returns what \<^verbatim>\<open>login\<close> returns. When \<^verbatim>\<open>_check_auth\<close> returns false, each
  of \<^verbatim>\<open>get_current_channel\<close>, \<^verbatim>\<open>get_ndi_sources\<close> and \<^verbatim>\<open>set_channel\<close> returns
  \<^verbatim>\<open>None\<close> or false in the state that \<^verbatim>\<open>_check_auth\<close> left, so the login request is
  the only one made; when it returns true, the operation makes exactly its own request next.
\<close>

theorem check_auth_first:
  "(authenticated self \<longrightarrow> check_auth self e = (Inr True, self, e))
   \<and> (\<not> authenticated self \<longrightarrow>
        check_auth self e = login self e
        \<and> sent (snd (snd (check_auth self e))) = sent e @ [login_params self])
   \<and> (check_auth self e = (Inr False, self1, e1) \<longrightarrow>
        get_current_channel self e = (Inr PNone, self1, e1)
        \<and> get_ndi_sources self e = (Inr PNone, self1, e1)
        \<and> set_channel self e name = (Inr False, self1, e1)
        \<and> sent e1 = sent e @ [login_params self])
   \<and> (check_auth self e = (Inr True, self1, e1) \<longrightarrow>
        sent (snd (snd (get_current_channel self e))) = sent e1 @ [get_channel_params self1]
        \<and> sent (snd (snd (get_ndi_sources self e))) = sent e1 @ [get_ndi_sources_params self1]
        \<and> sent (snd (snd (set_channel self e name))) = sent e1 @ [set_channel_params self1 name])"
proof (intro conjI impI)
  assume "authenticated self"
  then show "check_auth self e = (Inr True, self, e)"
    by (simp add: check_auth_def)
next
  assume "\<not> authenticated self"
  then show "check_auth self e = login self e"
    and "sent (snd (snd (check_auth self e))) = sent e @ [login_params self]"
    by (simp_all add: check_auth_def login_env)
next
  assume c: "check_auth self e = (Inr False, self1, e1)"
  show "get_current_channel self e = (Inr PNone, self1, e1)"
    by (simp add: current_unfold [OF c])
  show "get_ndi_sources self e = (Inr PNone, self1, e1)"
    by (simp add: sources_unfold [OF c])
  show "set_channel self e name = (Inr False, self1, e1)"
    by (simp add: set_unfold [OF c])
  from c have "\<not> authenticated self" and "login self e = (Inr False, self1, e1)"
    by (auto simp add: check_auth_def split: if_splits)
  then show "sent e1 = sent e @ [login_params self]"
    using login_env [of self e] by simp
next
  assume c: "check_auth self e = (Inr True, self1, e1)"
  show "sent (snd (snd (get_current_channel self e))) = sent e1 @ [get_channel_params self1]"
    by (simp add: current_unfold [OF c] try_sent)
  show "sent (snd (snd (get_ndi_sources self e))) = sent e1 @ [get_ndi_sources_params self1]"
    by (simp add: sources_unfold [OF c] try_sent)
  show "sent (snd (snd (set_channel self e name))) = sent e1 @ [set_channel_params self1 name]"
    by (simp add: set_unfold [OF c] try_sent)
qed


theorem check_auth_first_witness:
  "get_current_channel ex_switcher (ex_env (\<lambda>n rq. TransportError))
     = (Inr PNone, ex_switcher,
        \<lparr>reply = (\<lambda>n rq. TransportError), sent = [login_params ex_switcher],
         logged = [LogException ''Login error: '' RequestException], printed = []\<rparr>)
   \<and> check_auth (ex_switcher\<lparr>authenticated := True\<rparr>) (ex_env (\<lambda>n rq. TransportError))
     = (Inr True, ex_switcher\<lparr>authenticated := True\<rparr>, ex_env (\<lambda>n rq. TransportError))
   \<and> sent (snd (snd (set_channel (ex_switcher\<lparr>authenticated := True\<rparr>)
                        (ex_env (\<lambda>n rq. TransportError)) (PStr ''CAM-1''))))
     = [set_channel_params (ex_switcher\<lparr>authenticated := True\<rparr>) (PStr ''CAM-1'')]"
proof -
  let ?e = "ex_env (\<lambda>n rq. TransportError)"
  let ?e1 = "\<lparr>reply = (\<lambda>n rq. TransportError), sent = [login_params ex_switcher],
              logged = [LogException ''Login error: '' RequestException], printed = []\<rparr>"
  have na: "\<not> authenticated ex_switcher"
    by (simp add: ex_switcher_def init_def)
  have c: "check_auth ex_switcher ?e = (Inr False, ex_switcher, ?e1)"
    by (simp add: na check_auth_def login_def login_try_def get_status_def session_get_def
                  except_Exception_def log_def ex_env_def)
  have a: "authenticated (ex_switcher\<lparr>authenticated := True\<rparr>)"
    by simp
  show ?thesis
    using check_auth_first [of ex_switcher ?e ex_switcher ?e1 PNone] c
          check_auth_first [of "ex_switcher\<lparr>authenticated := True\<rparr>" ?e
                               "ex_switcher\<lparr>authenticated := True\<rparr>" ?e "PStr ''CAM-1''"] a
    by (simp add: ex_env_def)
qed

text \<open>
  C1. None of \<^verbatim>\<open>login\<close>, \<^verbatim>\<open>get_current_channel\<close>, \<^verbatim>\<open>get_ndi_sources\<close> and
  \<^verbatim>\<open>set_channel\<close> ever raises: each returns a value, whatever the device and the network
  do. When the answer to its request is not a success (a transport error, a body that is
  not JSON, a status other than 0), or when the login that precedes it fails, \<^verbatim>\<open>login\<close>
  and \<^verbatim>\<open>set_channel\<close> return false and the two others return \<^verbatim>\<open>None\<close>.
\<close>

theorem operations_fail_without_raising:
  "(\<exists>b. fst (login self e) = Inr b)
   \<and> (\<exists>v. fst (get_current_channel self e) = Inr v)
   \<and> (\<exists>v. fst (get_ndi_sources self e) = Inr v)
   \<and> (\<exists>b. fst (set_channel self e name) = Inr b)
   \<and> (\<not> status_zero (next_reply e (login_params self)) \<longrightarrow> fst (login self e) = Inr False)
   \<and> (check_auth self e = (Inr ok, self1, e1) \<longrightarrow>
        (\<not> ok \<or> \<not> status_zero (next_reply e1 (get_channel_params self1)) \<longrightarrow>
           fst (get_current_channel self e) = Inr PNone)
        \<and> (\<not> ok \<or> \<not> status_zero (next_reply e1 (get_ndi_sources_params self1)) \<longrightarrow>
           fst (get_ndi_sources self e) = Inr PNone)
        \<and> (\<not> ok \<or> \<not> status_zero (next_reply e1 (set_channel_params self1 name)) \<longrightarrow>
           fst (set_channel self e name) = Inr False))
   \<and> \<not> status_zero TransportError
   \<and> \<not> status_zero (Response None)
   \<and> (\<forall>kvs st. map_of kvs ''status'' = Some st \<and> \<not> py_eq_zero st \<longrightarrow>
        \<not> status_zero (Response (Some (PDict kvs))))"
proof (intro conjI impI allI)
  show "\<exists>b. fst (login self e) = Inr b"
    by (subst login_cases) auto
  show "\<exists>v. fst (get_current_channel self e) = Inr v"
    by (rule current_Inr)
  show "\<exists>v. fst (get_ndi_sources self e) = Inr v"
    by (rule sources_Inr)
  show "\<exists>b. fst (set_channel self e name) = Inr b"
    by (rule set_Inr)
  show "fst (login self e) = Inr False" if "\<not> status_zero (next_reply e (login_params self))"
    using that by (subst login_cases) simp
  show "fst (get_current_channel self e) = Inr PNone"
    if "check_auth self e = (Inr ok, self1, e1)"
      and "\<not> ok \<or> \<not> status_zero (next_reply e1 (get_channel_params self1))"
    using that by (rule current_fail)
  show "fst (get_ndi_sources self e) = Inr PNone"
    if "check_auth self e = (Inr ok, self1, e1)"
      and "\<not> ok \<or> \<not> status_zero (next_reply e1 (get_ndi_sources_params self1))"
    using that by (rule sources_fail)
  show "fst (set_channel self e name) = Inr False"
    if "check_auth self e = (Inr ok, self1, e1)"
      and "\<not> ok \<or> \<not> status_zero (next_reply e1 (set_channel_params self1 name))"
    using that by (rule set_fail)
  show "\<not> status_zero TransportError" and "\<not> status_zero (Response None)"
    by (simp_all add: status_zero_def)
  show "\<not> status_zero (Response (Some (PDict kvs)))"
    if "map_of kvs ''status'' = Some st \<and> \<not> py_eq_zero st" for kvs st
    using that by (simp add: status_zero_def)
qed

theorem operations_fail_without_raising_witness:
  "fst (login ex_switcher (ex_env (\<lambda>n rq. Response None))) = Inr False
   \<and> fst (get_current_channel (ex_switcher\<lparr>authenticated := True\<rparr>)
            (ex_env (\<lambda>n rq. Response None))) = Inr PNone
   \<and> fst (get_ndi_sources (ex_switcher\<lparr>authenticated := True\<rparr>)
            (ex_env (\<lambda>n rq. Response None))) = Inr PNone
   \<and> fst (set_channel (ex_switcher\<lparr>authenticated := True\<rparr>)
            (ex_env (\<lambda>n rq. Response None)) (PStr ''CAM-1'')) = Inr False"
proof -
  let ?s = "ex_switcher\<lparr>authenticated := True\<rparr>"
  let ?e = "ex_env (\<lambda>n rq. Response None)"
  have c: "check_auth ?s ?e = (Inr True, ?s, ?e)"
    by (simp add: check_auth_def)
  have n: "\<not> status_zero (next_reply ?e rq)" for rq
    by (simp add: status_zero_def next_reply_def ex_env_def)
  show ?thesis
    using operations_fail_without_raising [of ex_switcher ?e "PStr ''CAM-1''" True ?s ?e]
          operations_fail_without_raising [of ?s ?e "PStr ''CAM-1''" True ?s ?e] c n
    by simp
qed

text \<open>
  C4. After a successful \<^verbatim>\<open>_check_auth\<close>, when the device answers the request for the
  sources with a JSON object of status 0, \<^verbatim>\<open>get_ndi_sources\<close> returns the value of its
  \<^verbatim>\<open>sources\<close> field as it is (so a list in the order received), and the empty list when
  the object has no such field; on every answer that is not of status 0 it returns
  \<^verbatim>\<open>None\<close>.
\<close>

theorem get_ndi_sources_result:
  assumes "check_auth self e = (Inr True, self1, e1)"
  shows "(next_reply e1 (get_ndi_sources_params self1) = Response (Some (PDict kvs))
            \<and> status_zero (Response (Some (PDict kvs))) \<and> map_of kvs ''sources'' = Some v \<longrightarrow>
          fst (get_ndi_sources self e) = Inr v)
       \<and> (next_reply e1 (get_ndi_sources_params self1) = Response (Some (PDict kvs))
            \<and> status_zero (Response (Some (PDict kvs))) \<and> map_of kvs ''sources'' = None \<longrightarrow>
          fst (get_ndi_sources self e) = Inr (PList []))
       \<and> (\<not> status_zero (next_reply e1 (get_ndi_sources_params self1)) \<longrightarrow>
          fst (get_ndi_sources self e) = Inr PNone)"
  using sources_fail [OF assms]
  by (simp add: sources_unfold [OF assms] sources_try)

theorem get_ndi_sources_result_witness:
  "fst (get_ndi_sources (ex_switcher\<lparr>authenticated := True\<rparr>) (ex_env (\<lambda>n rq. ok_body [])))
     = Inr (PList [])
   \<and> fst (get_ndi_sources (ex_switcher\<lparr>authenticated := True\<rparr>)
            (ex_env (\<lambda>n rq. ok_body [(''sources'', PList [PStr ''b'', PStr ''a''])])))
     = Inr (PList [PStr ''b'', PStr ''a''])
   \<and> fst (get_ndi_sources (ex_switcher\<lparr>authenticated := True\<rparr>)
            (ex_env (\<lambda>n rq. Response (Some (PDict [(''status'', PInt 1)])))))
     = Inr PNone"
proof -
  let ?s = "ex_switcher\<lparr>authenticated := True\<rparr>"
  have c: "check_auth ?s e = (Inr True, ?s, e)" for e
    by (simp add: check_auth_def)
  show ?thesis
    using get_ndi_sources_result [OF c, of "ex_env (\<lambda>n rq. ok_body [])" "[(''status'', PInt 0)]" PNone]
          get_ndi_sources_result [OF c, of "ex_env (\<lambda>n rq. ok_body [(''sources'', PList [PStr ''b'', PStr ''a''])])"
             "[(''status'', PInt 0), (''sources'', PList [PStr ''b'', PStr ''a''])]" "PList [PStr ''b'', PStr ''a'']"]
          get_ndi_sources_result [OF c, of "ex_env (\<lambda>n rq. Response (Some (PDict [(''status'', PInt 1)])))" "[]" PNone]
    by (simp add: status_zero_def next_reply_def ex_env_def ok_body_def)
qed

text \<open>
  C5. The hash that \<^verbatim>\<open>login\<close> sends is a function of the password alone: it is the MD5
  hexadecimal digest of the password, in the \<^verbatim>\<open>pass\<close> parameter of the one request that
  \<^verbatim>\<open>login\<close> makes; \<^verbatim>\<open>login\<close> does not change the password, so every call sends the same
  hash, and two objects with the same password send the same hash. For the password
  \<^verbatim>\<open>password\<close> the hash is \<^verbatim>\<open>5f4dcc3b5aa765d61d8327deb882cf99\<close>.
\<close>

theorem login_sends_md5_hex_of_password:
  "hash_password self = md5_hex (password self)
   \<and> sent (snd (snd (login self e)))
       = sent e @ [(base_url self, [(''method'', PStr ''login''), (''id'', PStr (username self)),
                                    (''pass'', PStr (md5_hex (password self)))])]
   \<and> password (fst (snd (login self e))) = password self
   \<and> (password self' = password self \<longrightarrow>
        map_of (snd (last (sent (snd (snd (login self' e')))))) ''pass''
          = map_of (snd (last (sent (snd (snd (login self e)))))) ''pass'')
   \<and> md5_hex ''password'' = ''5f4dcc3b5aa765d61d8327deb882cf99''"
proof -
  have p: "password (fst (snd (login self e))) = password self"
    by (subst login_cases) simp
  show ?thesis
    by (simp add: p login_env login_params_def hash_password_def md5_password)
qed

theorem login_sends_md5_hex_of_password_witness:
  "map_of (snd (last (sent (snd (snd (login ex_switcher (ex_env (\<lambda>n rq. ok_body []))))))))
      ''pass'' = Some (PStr ''5f4dcc3b5aa765d61d8327deb882cf99'')
   \<and> map_of (snd (last (sent (snd (snd (login (ex_switcher\<lparr>authenticated := True\<rparr>)
                                           (ex_env (\<lambda>n rq. TransportError))))))))
      ''pass'' = Some (PStr ''5f4dcc3b5aa765d61d8327deb882cf99'')"
proof -
  have pw: "password (ex_switcher\<lparr>authenticated := True\<rparr>) = password ex_switcher"
    "password ex_switcher = ''password''"
    by (simp_all add: ex_switcher_def init_def)
  show ?thesis
    using login_sends_md5_hex_of_password
            [of ex_switcher "ex_env (\<lambda>n rq. ok_body [])" "ex_switcher\<lparr>authenticated := True\<rparr>"
                "ex_env (\<lambda>n rq. TransportError)"] pw
    by simp
qed

section \<open>The table of sources\<close>

lemma text_field_Some:
  "text_field src k = Some s \<Longrightarrow> dict_get src k (PStr ''Unknown'') = Inr (PStr s)"
  by (cases src) (auto split: option.splits pyval.splits)

lemma display_rows_text:
  assumes "\<forall>src\<in>set srcs. text_field src ''ndi-name'' \<noteq> None \<and> text_field src ''ip-addr'' \<noteq> None"
  shows "display_rows idx srcs e =
           (Inr (), e\<lparr>printed := printed e @
              map (\<lambda>(i, src). Print (source_row i (the (text_field src ''ndi-name''))
                                               (the (text_field src ''ip-addr''))))
                  (enumerate idx srcs)\<rparr>)"
  using assms
proof (induction srcs arbitrary: idx e)
  case Nil
  then show ?case by simp
next
  case (Cons src srcs)
  from Cons.prems obtain name ip
    where f: "text_field src ''ndi-name'' = Some name" "text_field src ''ip-addr'' = Some ip"
    by auto
  have rest: "\<forall>src\<in>set srcs. text_field src ''ndi-name'' \<noteq> None \<and> text_field src ''ip-addr'' \<noteq> None"
    using Cons.prems by simp
  show ?case
    by (simp add: text_field_Some [OF f(1)] text_field_Some [OF f(2)] f Cons.IH [OF rest]
                  print_def source_row_def)
qed

lemma str_of_nat_1: "str_of_nat (Suc 0) = ''1''"
  by (simp add: str_of_nat.simps digit_char_def)

text \<open>
  C9, as the code has it. For sources that are JSON objects whose \<^verbatim>\<open>ndi-name\<close> and
  \<^verbatim>\<open>ip-addr\<close> are strings or absent, \<^verbatim>\<open>display_ndi_sources\<close> prints the four header
  lines and then, for the source at the 1-based index \<open>i\<close>, the row made of \<open>i\<close>
  right-aligned in 3 columns, the name, and the address. The name is followed by spaces
  up to 60 characters and the address up to 15; neither is ever cut, so a name of more than
  60 characters is printed whole. For \<^verbatim>\<open>CAM-1\<close> at \<^verbatim>\<open>10.0.0.5\<close> with index 1 the row is
  the index, the name in 60 and the address in 15 columns.
\<close>

theorem display_ndi_sources_rows:
  assumes "\<forall>src\<in>set sources. text_field src ''ndi-name'' \<noteq> None \<and> text_field src ''ip-addr'' \<noteq> None"
    and "sources \<noteq> []"
  shows "display_ndi_sources (PList sources) e =
           (Inr (), e\<lparr>printed := printed e @
              [Print (CHR 0x0A # ''Available NDI Sources:''),
               Print (replicate 80 CHR ''-''),
               Print (ljust 3 ''#'' @ '' | '' @ ljust 60 ''Source Name'' @ '' | '' @ ljust 15 ''IP Address''),
               Print (replicate 80 CHR ''-'')] @
              map (\<lambda>(i, src). Print (source_row i (the (text_field src ''ndi-name''))
                                               (the (text_field src ''ip-addr''))))
                  (enumerate 1 sources)\<rparr>)
       \<and> (\<forall>i name ip. source_row i name ip =
             replicate (3 - length (str_of_nat i)) CHR '' '' @ str_of_nat i @ '' | ''
             @ name @ replicate (60 - length name) CHR '' '' @ '' | ''
             @ ip @ replicate (15 - length ip) CHR '' '')
       \<and> source_row 1 ''CAM-1'' ''10.0.0.5''
           = ''  1 | CAM-1                                                        | 10.0.0.5       ''"
proof (intro conjI allI)
  show "display_ndi_sources (PList sources) e =
           (Inr (), e\<lparr>printed := printed e @
              [Print (CHR 0x0A # ''Available NDI Sources:''),
               Print (replicate 80 CHR ''-''),
               Print (ljust 3 ''#'' @ '' | '' @ ljust 60 ''Source Name'' @ '' | '' @ ljust 15 ''IP Address''),
               Print (replicate 80 CHR ''-'')] @
              map (\<lambda>(i, src). Print (source_row i (the (text_field src ''ndi-name''))
                                               (the (text_field src ''ip-addr''))))
                  (enumerate 1 sources)\<rparr>)"
    using assms(2)
    by (simp add: display_ndi_sources_def Let_def display_rows_text [OF assms(1)] print_def)
  show "source_row i name ip =
             replicate (3 - length (str_of_nat i)) CHR '' '' @ str_of_nat i @ '' | ''
             @ name @ replicate (60 - length name) CHR '' '' @ '' | ''
             @ ip @ replicate (15 - length ip) CHR '' ''" for i name ip
    by (simp add: source_row_def ljust_def rjust_def)
  show "source_row 1 ''CAM-1'' ''10.0.0.5''
           = ''  1 | CAM-1                                                        | 10.0.0.5       ''"
    by (simp add: source_row_def ljust_def rjust_def str_of_nat_1 eval_nat_numeral)
qed

theorem display_ndi_sources_rows_witness:
  "printed (snd (display_ndi_sources
      (PList [PDict [(''ndi-name'', PStr ''CAM-1''), (''ip-addr'', PStr ''10.0.0.5'')]])
      (ex_env (\<lambda>n rq. TransportError))))
   = [Print (CHR 0x0A # ''Available NDI Sources:''),
      Print (replicate 80 CHR ''-''),
      Print (ljust 3 ''#'' @ '' | '' @ ljust 60 ''Source Name'' @ '' | '' @ ljust 15 ''IP Address''),
      Print (replicate 80 CHR ''-''),
      Print ''  1 | CAM-1                                                        | 10.0.0.5       '']"
  using display_ndi_sources_rows
          [of "[PDict [(''ndi-name'', PStr ''CAM-1''), (''ip-addr'', PStr ''10.0.0.5'')]]"
              "ex_env (\<lambda>n rq. TransportError)", THEN conjunct1]
  by (simp add: ex_env_def enumerate_eq_zip source_row_def ljust_def rjust_def str_of_nat_1
                eval_nat_numeral)

theorem display_ndi_sources_rows_counterexample:
  "last (printed (snd (display_ndi_sources
      (PList [PDict [(''ndi-name'', PStr (replicate 61 CHR ''a'')), (''ip-addr'', PStr ''10.0.0.5'')]])
      (ex_env (\<lambda>n rq. TransportError)))))
     = Print (''  1 | '' @ replicate 61 CHR ''a'' @ '' | 10.0.0.5       '')
   \<and> ''  1 | '' @ replicate 61 CHR ''a'' @ '' | 10.0.0.5       ''
     \<noteq> ''  1 | '' @ truncated_or_padded 60 (replicate 61 CHR ''a'') @ '' | ''
        @ truncated_or_padded 15 ''10.0.0.5''"
proof
  show "last (printed (snd (display_ndi_sources
      (PList [PDict [(''ndi-name'', PStr (replicate 61 CHR ''a'')), (''ip-addr'', PStr ''10.0.0.5'')]])
      (ex_env (\<lambda>n rq. TransportError)))))
     = Print (''  1 | '' @ replicate 61 CHR ''a'' @ '' | 10.0.0.5       '')"
    by (simp add: display_ndi_sources_def Let_def print_def ex_env_def ljust_def rjust_def
                  str_of_nat_1 eval_nat_numeral)
  have "length (''  1 | '' @ replicate 61 CHR ''a'' @ '' | 10.0.0.5       '')
        \<noteq> length (''  1 | '' @ truncated_or_padded 60 (replicate 61 CHR ''a'') @ '' | ''
                   @ truncated_or_padded 15 ''10.0.0.5'')"
    by (simp add: truncated_or_padded_def)
  then show "''  1 | '' @ replicate 61 CHR ''a'' @ '' | 10.0.0.5       ''
     \<noteq> ''  1 | '' @ truncated_or_padded 60 (replicate 61 CHR ''a'') @ '' | ''
        @ truncated_or_padded 15 ''10.0.0.5''"
    by metis
qed

section \<open>One pass of the interactive loop\<close>

lemma py_strip_digit:
  "py_strip ''1'' = ''1''" "py_strip ''2'' = ''2''" "py_strip ''3'' = ''3''" "py_strip ''4'' = ''4''"
  by (simp_all add: py_strip_def is_space_def)

lemma py_int_digit: "py_int ''0'' = Inr 0" "py_int ''2'' = Inr 2" "py_int ''4'' = Inr 4"
  by (simp_all add: py_int_def is_int_space_def is_digit_def digits_value_def int_max_str_digits_def)

lemma py_int_Inl: "py_int line = Inl x \<Longrightarrow> x = ValueError"
  by (auto simp add: py_int_def Let_def split: if_splits prod.splits)

lemma loop_body_Nil: "loop_body self e [] = Raise EOFError (self, asked e, [])"
  by (simp add: loop_body_def py_input_def asked_def)

lemma loop_body_Cons:
  "loop_body self e (c # rest) =
     (if py_strip c = ''1'' then option_current self (asked e) rest
      else if py_strip c = ''2'' then option_list self (asked e) rest
      else if py_strip c = ''3'' then option_switch self (asked e) rest
      else if py_strip c = ''4'' then Break (self, print ''Exiting...'' (asked e), rest)
      else Continue (self, print ''Invalid option. Please try again.'' (asked e), rest))"
  by (simp add: loop_body_def py_input_def asked_def Let_def)

lemma option_switch_cached:
  "cached_sources self = Some (PList (s # ss)) \<Longrightarrow> option_switch self e inp = select_source self e inp"
  by (simp add: option_switch_def)

lemma select_source_invalid:
  "py_int line = Inl x \<Longrightarrow>
   select_source self e (line # rest)
     = Continue (self, print ''Please enter a valid number.'' (write_prompt source_prompt e), rest)"
  by (frule py_int_Inl) (simp add: select_source_def select_source_try_def py_input_def)

lemma select_source_cancel:
  "py_int line = Inr 0 \<Longrightarrow>
   select_source self e (line # rest) = Continue (self, write_prompt source_prompt e, rest)"
  by (simp add: select_source_def select_source_try_def py_input_def)

lemma select_source_range:
  "py_int line = Inr idx \<Longrightarrow> cached_sources self = Some (PList xs) \<Longrightarrow>
   idx < 0 \<or> int (length xs) < idx \<Longrightarrow>
   select_source self e (line # rest)
     = Continue (self, print ''Invalid source number.'' (write_prompt source_prompt e), rest)"
  by (auto simp add: select_source_def select_source_try_def py_input_def)

lemma select_source_set:
  assumes "py_int line = Inr idx" and "cached_sources self = Some (PList xs)"
    and "1 \<le> idx" and "idx \<le> int (length xs)"
    and "dict_get (xs ! nat (idx - 1)) ''ndi-name'' PNone = Inr name"
    and "set_channel self (write_prompt source_prompt e) name = (Inr ok, self1, e1)"
  shows "select_source self e (line # rest)
     = Continue (self1,
         print ((if ok then ''Successfully switched to: '' else ''Failed to switch to: '') @ py_str name) e1,
         rest)"
  using assms
  by (simp add: select_source_def select_source_try_def py_input_def list_item_def)

lemma set_channel_obtain:
  obtains ok self1 e1 where "set_channel self e name = (Inr ok, self1, e1)"
  using set_Inr [of self e name] by (cases "set_channel self e name") auto

lemma env_sent [simp]:
  "sent (print s e) = sent e" "sent (write_prompt p e) = sent e" "sent (menu e) = sent e"
  "sent (asked e) = sent e"
  by (simp_all add: print_def write_prompt_def menu_def asked_def)

text \<open>
  C6. In the interactive mode with three cached sources, after the option \<^verbatim>\<open>3\<close>: the
  input \<^verbatim>\<open>0\<close> ends the pass with nothing but the menu and the two prompts written, no
  request made, and the loop going on; an input that \<^verbatim>\<open>int\<close> reads as a number below 0
  or above 3, such as \<^verbatim>\<open>4\<close>, prints \<^verbatim>\<open>Invalid source number.\<close>, makes no request, and
  the loop goes on; the input \<^verbatim>\<open>2\<close> calls \<^verbatim>\<open>set_channel\<close> with the \<^verbatim>\<open>ndi-name\<close> of
  the second cached source (index 1 counting from 0), prints the outcome, and the loop goes on.
\<close>

theorem switch_option_three_sources:
  assumes "cached_sources self = Some (PList [s0, s1, s2])"
  shows "loop_body self e (''3'' # ''0'' # rest)
           = Continue (self, write_prompt source_prompt (asked e), rest)
       \<and> sent (write_prompt source_prompt (asked e)) = sent e
       \<and> (py_int line = Inr idx \<and> (idx < 0 \<or> 3 < idx) \<longrightarrow>
            loop_body self e (''3'' # line # rest)
              = Continue (self, print ''Invalid source number.'' (write_prompt source_prompt (asked e)), rest)
            \<and> sent (print ''Invalid source number.'' (write_prompt source_prompt (asked e))) = sent e)
       \<and> py_int ''4'' = Inr 4
       \<and> (dict_get s1 ''ndi-name'' PNone = Inr name \<longrightarrow>
            (\<exists>ok self1 e1.
               set_channel self (write_prompt source_prompt (asked e)) name = (Inr ok, self1, e1)
               \<and> loop_body self e (''3'' # ''2'' # rest)
                   = Continue (self1,
                       print ((if ok then ''Successfully switched to: '' else ''Failed to switch to: '')
                              @ py_str name) e1,
                       rest)))"
proof (intro conjI impI)
  show "loop_body self e (''3'' # ''0'' # rest)
           = Continue (self, write_prompt source_prompt (asked e), rest)"
    by (simp add: loop_body_Cons py_strip_digit option_switch_cached [OF assms]
                  select_source_cancel [OF py_int_digit(1)])
  show "sent (write_prompt source_prompt (asked e)) = sent e"
    by simp
  show "py_int ''4'' = Inr 4"
    by (rule py_int_digit)
next
  assume a: "py_int line = Inr idx \<and> (idx < 0 \<or> 3 < idx)"
  then have r: "idx < 0 \<or> int (length [s0, s1, s2]) < idx"
    by simp
  show "loop_body self e (''3'' # line # rest)
          = Continue (self, print ''Invalid source number.'' (write_prompt source_prompt (asked e)), rest)"
    using a
    by (simp add: loop_body_Cons py_strip_digit option_switch_cached [OF assms]
                  select_source_range [OF _ assms r])
  show "sent (print ''Invalid source number.'' (write_prompt source_prompt (asked e))) = sent e"
    by simp
next
  assume n: "dict_get s1 ''ndi-name'' PNone = Inr name"
  obtain ok self1 e1
    where s: "set_channel self (write_prompt source_prompt (asked e)) name = (Inr ok, self1, e1)"
    by (rule set_channel_obtain)
  have "select_source self (asked e) (''2'' # rest)
          = Continue (self1,
              print ((if ok then ''Successfully switched to: '' else ''Failed to switch to: '')
                     @ py_str name) e1,
              rest)"
    by (rule select_source_set [OF py_int_digit(2) assms _ _ _ s]) (simp_all add: n)
  then have "loop_body self e (''3'' # ''2'' # rest)
          = Continue (self1,
              print ((if ok then ''Successfully switched to: '' else ''Failed to switch to: '')
                     @ py_str name) e1,
              rest)"
    by (simp add: loop_body_Cons py_strip_digit option_switch_cached [OF assms])
  with s show "\<exists>ok self1 e1.
       set_channel self (write_prompt source_prompt (asked e)) name = (Inr ok, self1, e1)
       \<and> loop_body self e (''3'' # ''2'' # rest)
           = Continue (self1,
               print ((if ok then ''Successfully switched to: '' else ''Failed to switch to: '')
                      @ py_str name) e1,
               rest)"
    by blast
qed


theorem switch_option_three_sources_witness:
  "loop_body ex_cached (ex_env (\<lambda>n rq. ok_body [])) [''3'', ''0'']
     = Continue (ex_cached, write_prompt source_prompt (asked (ex_env (\<lambda>n rq. ok_body []))), [])
   \<and> loop_body ex_cached (ex_env (\<lambda>n rq. ok_body [])) [''3'', ''4'']
     = Continue (ex_cached,
         print ''Invalid source number.''
           (write_prompt source_prompt (asked (ex_env (\<lambda>n rq. ok_body [])))), [])
   \<and> loop_body ex_cached (ex_env (\<lambda>n rq. ok_body [])) [''3'', ''2'']
     = Continue (ex_cached,
         print ''Successfully switched to: CAM-2''
           (log (LogInfo ''Successfully switched to source: CAM-2'')
              ((write_prompt source_prompt (asked (ex_env (\<lambda>n rq. ok_body []))))
                 \<lparr>sent := [set_channel_params ex_cached (PStr ''CAM-2'')]\<rparr>)), [])"
proof -
  let ?e = "ex_env (\<lambda>n rq. ok_body [])"
  let ?e2 = "write_prompt source_prompt (asked ?e)"
  have c: "cached_sources ex_cached
             = Some (PList [PDict [(''ndi-name'', PStr ''CAM-1''), (''ip-addr'', PStr ''10.0.0.5'')],
                            PDict [(''ndi-name'', PStr ''CAM-2''), (''ip-addr'', PStr ''10.0.0.6'')],
                            PDict [(''ndi-name'', PStr ''CAM-3'')]])"
    by (simp add: ex_cached_def ex_sources_def)
  note w = switch_option_three_sources [OF c, of ?e "[]" "''4''" 4 "PStr ''CAM-2''"]
  have s: "set_channel ex_cached ?e2 (PStr ''CAM-2'')
             = (Inr True, ex_cached,
                log (LogInfo ''Successfully switched to source: CAM-2'')
                  (?e2\<lparr>sent := [set_channel_params ex_cached (PStr ''CAM-2'')]\<rparr>))"
    by (simp add: set_channel_def check_auth_def ex_cached_def set_channel_try_def get_status_def
                  session_get_def response_json_def except_Exception_def ok_body_def ex_env_def
                  write_prompt_def asked_def menu_def print_def log_def py_str_def)
  from w s show ?thesis
    by (auto simp add: py_int_digit py_str_def)
qed

section \<open>The loop\<close>

lemma loop_body_Break:
  "loop_body self e inp = Break st \<longleftrightarrow>
     (\<exists>c rest. inp = c # rest \<and> py_strip c = ''4'' \<and> st = (self, print ''Exiting...'' (asked e), rest))"
proof (cases inp)
  case Nil
  then show ?thesis by (simp add: loop_body_Nil)
next
  case (Cons c rest)
  have sel: "select_source s0 e0 i \<noteq> Break st" for s0 e0 i
    by (auto simp add: select_source_def select_source_try_def py_input_def
             split: list.splits sum.splits prod.splits option.splits if_splits flow.splits)
  have "option_current self (asked e) rest \<noteq> Break st"
    by (auto simp add: option_current_def split: sum.splits prod.splits)
  moreover have "option_list self (asked e) rest \<noteq> Break st"
    by (auto simp add: option_list_def split: sum.splits prod.splits)
  moreover have "option_switch self (asked e) rest \<noteq> Break st"
    using sel by (auto simp add: option_switch_def split: sum.splits prod.splits)
  ultimately show ?thesis
    using Cons by (auto simp add: loop_body_Cons)
qed

lemma select_source_subset:
  "select_source s0 e0 i = Continue (s1, e1, i1) \<Longrightarrow> set i1 \<subseteq> set i"
  by (auto simp add: select_source_def select_source_try_def py_input_def
           split: list.splits sum.splits prod.splits option.splits if_splits flow.splits)

lemma loop_body_subset:
  assumes "loop_body self e (c # rest) = Continue (self1, e1, inp1)"
  shows "set inp1 \<subseteq> set rest"
  using assms select_source_subset
  by (auto simp add: loop_body_Cons option_current_def option_list_def option_switch_def
           split: sum.splits prod.splits if_splits)

lemma run_loop_exit:
  "fst (run_loop self e inp) = Inr () \<Longrightarrow> \<exists>c\<in>set inp. py_strip c = ''4''"
proof (induction self e inp rule: run_loop.induct)
  case (1 self e inp)
  show ?case
  proof (cases "loop_body self e inp")
    case (Continue st)
    obtain self1 e1 inp1 where st: "st = (self1, e1, inp1)" by (cases st)
    from Continue st have ne: "inp \<noteq> []"
      by (auto simp add: loop_body_Nil)
    then obtain c rest where inp: "inp = c # rest" by (cases inp) auto
    have sub: "set inp1 \<subseteq> set rest"
      using Continue st inp loop_body_subset by blast
    have "fst (run_loop self1 e1 inp1) = Inr ()"
      using "1.prems" Continue st by (subst (asm) run_loop.simps) simp
    then have "\<exists>c\<in>set inp1. py_strip c = ''4''"
      using "1.IH" [OF Continue st [symmetric] refl] by simp
    then show ?thesis using sub inp by auto
  next
    case (Break st)
    then show ?thesis by (auto simp add: loop_body_Break)
  next
    case (Raise x st)
    then show ?thesis
      using "1.prems" by (subst (asm) run_loop.simps) simp
  qed
qed

lemma run_loop_Continue:
  "loop_body self e inp = Continue (self1, e1, inp1) \<Longrightarrow> run_loop self e inp = run_loop self1 e1 inp1"
  by (subst run_loop.simps) simp


lemma printed_asked:
  "printed (asked e) = printed e @
     [Print (CHR 0x0A # ''Options:''), Print ''1. Show current channel'', Print ''2. List NDI sources'',
      Print ''3. Switch to a source'', Print ''4. Exit'', Prompt option_prompt]"
  by (simp add: asked_def menu_def print_def write_prompt_def)

lemma select_source_Nil:
  "select_source self e [] = Raise EOFError (self, write_prompt source_prompt e, [])"
  by (simp add: select_source_def select_source_try_def py_input_def)

lemma select_source_outside:
  "py_int line = Inr idx \<Longrightarrow>
   idx < 0 \<or> cached_sources self = Some cached \<and> py_len cached = Inr n \<and> int n < idx \<Longrightarrow>
   select_source self e (line # rest)
     = Continue (self, print ''Invalid source number.'' (write_prompt source_prompt e), rest)"
  by (auto simp add: select_source_def select_source_try_def py_input_def)

lemma option_switch_truthy:
  "cached_sources self = Some cached \<Longrightarrow> truthy cached \<Longrightarrow>
   option_switch self e inp = select_source self e inp"
  by (simp add: option_switch_def)

lemma option_switch_fetch:
  assumes "cached_sources self = None \<or> cached_sources self = Some cached \<and> \<not> truthy cached"
    and "get_ndi_sources self (print ''Fetching available sources first...'' e) = (Inr sources, self1, e1)"
  shows "\<not> truthy sources \<Longrightarrow>
           option_switch self e inp
             = Continue (self1, print ''Failed to retrieve sources. Please try again.'' e1, inp)"
    and "truthy sources \<Longrightarrow> display_ndi_sources sources e1 = (Inr (), e2) \<Longrightarrow>
           option_switch self e inp = select_source (self1\<lparr>cached_sources := Some sources\<rparr>) e2 inp"
  using assms by (auto simp add: option_switch_def)

lemma run_loop_Break:
  "loop_body self e inp = Break st \<Longrightarrow> run_loop self e inp = (Inr (), st)"
  by (subst run_loop.simps) simp

lemma run_loop_Raise:
  "loop_body self e inp = Raise x st \<Longrightarrow> run_loop self e inp = (Inl x, st)"
  by (subst run_loop.simps) simp

lemma run_loop_passes:
  "passes k (self, e, inp) = Some (s', e', c # rest) \<Longrightarrow> py_strip c = ''4'' \<Longrightarrow>
   run_loop self e inp = (Inr (), s', print ''Exiting...'' (asked e'), rest)"
proof (induction k arbitrary: self e inp)
  case 0
  then show ?case
    by (simp add: run_loop_Break loop_body_Cons)
next
  case (Suc k)
  from Suc.prems(1) obtain self1 e1 inp1
    where b: "loop_body self e inp = Continue (self1, e1, inp1)"
      and p: "passes k (self1, e1, inp1) = Some (s', e', c # rest)"
    by (auto split: flow.splits)
  show ?case
    using Suc.IH [OF p Suc.prems(2)] run_loop_Continue [OF b] by simp
qed

lemma run_loop_Inr_passes:
  "fst (run_loop self e inp) = Inr () \<Longrightarrow>
   \<exists>k s' e' c rest. passes k (self, e, inp) = Some (s', e', c # rest) \<and> py_strip c = ''4''"
proof (induction self e inp rule: run_loop.induct)
  case (1 self e inp)
  show ?case
  proof (cases "loop_body self e inp")
    case (Continue st)
    obtain self1 e1 inp1 where st: "st = (self1, e1, inp1)" by (cases st)
    have "fst (run_loop self1 e1 inp1) = Inr ()"
      using "1.prems" Continue st by (subst (asm) run_loop.simps) simp
    then obtain k s' e' c rest
      where "passes k (self1, e1, inp1) = Some (s', e', c # rest)" "py_strip c = ''4''"
      using "1.IH" [OF Continue st [symmetric] refl] by blast
    then have "passes (Suc k) (self, e, inp) = Some (s', e', c # rest) \<and> py_strip c = ''4''"
      using Continue st by simp
    then show ?thesis by blast
  next
    case (Break st)
    then obtain c rest where "inp = c # rest" "py_strip c = ''4''"
      by (auto simp add: loop_body_Break)
    then have "passes 0 (self, e, inp) = Some (self, e, c # rest) \<and> py_strip c = ''4''"
      by simp
    then show ?thesis by blast
  next
    case (Raise x st)
    then show ?thesis
      using "1.prems" by (subst (asm) run_loop.simps) simp
  qed
qed


text \<open>
  C7, as the code has it. A line at the menu that is none of the four options prints
  \<^verbatim>\<open>Invalid option. Please try again.\<close>. After the option \<^verbatim>\<open>3\<close>, once the number is
  asked for (with cached sources at once; without them after the sources have been fetched
  and shown, and when that fetch fails the pass prints
  \<^verbatim>\<open>Failed to retrieve sources. Please try again.\<close>), a line that \<^verbatim>\<open>int\<close> rejects prints
  \<^verbatim>\<open>Please enter a valid number.\<close> and a number below 0 or above the number of sources
  prints \<^verbatim>\<open>Invalid source number.\<close>. Each time the loop goes on with the rest of the
  input, and every pass starts by printing the menu. A pass leaves the loop exactly when the
  line read at the menu is the option \<^verbatim>\<open>4\<close>; so the loop returns normally exactly when,
  after some number of passes that all went on, the line read at the menu is \<^verbatim>\<open>4\<close>, and
  it prints \<^verbatim>\<open>Exiting...\<close> then. When standard input ends, however, the loop ends as
  well, at the menu and at the prompt for the number alike: \<^verbatim>\<open>input\<close> raises
  \<^verbatim>\<open>EOFError\<close>, which nothing catches.
\<close>

theorem loop_goes_on_until_exit:
  fixes self :: MagewellSwitcher and e :: env
  defines "fetched c cached sources self1 e1 \<equiv>
             py_strip c = ''3''
             \<and> (cached_sources self = None \<or> cached_sources self = Some cached \<and> \<not> truthy cached)
             \<and> get_ndi_sources self (print ''Fetching available sources first...'' (asked e))
                 = (Inr sources, self1, e1)"
  shows "(py_strip c \<notin> {''1'', ''2'', ''3'', ''4''} \<longrightarrow>
      run_loop self e (c # rest)
        = run_loop self (print ''Invalid option. Please try again.'' (asked e)) rest)
   \<and> (py_strip c = ''3'' \<and> cached_sources self = Some cached \<and> truthy cached
        \<and> py_int line = Inl x \<longrightarrow>
      run_loop self e (c # line # rest)
        = run_loop self (print ''Please enter a valid number.'' (write_prompt source_prompt (asked e))) rest)
   \<and> (py_strip c = ''3'' \<and> cached_sources self = Some cached \<and> truthy cached
        \<and> py_int line = Inr idx \<and> (idx < 0 \<or> py_len cached = Inr n \<and> int n < idx) \<longrightarrow>
      run_loop self e (c # line # rest)
        = run_loop self (print ''Invalid source number.'' (write_prompt source_prompt (asked e))) rest)
   \<and> printed (asked e) = printed e @
        [Print (CHR 0x0A # ''Options:''), Print ''1. Show current channel'', Print ''2. List NDI sources'',
         Print ''3. Switch to a source'', Print ''4. Exit'', Prompt option_prompt]
   \<and> (py_strip c = ''4'' \<longrightarrow>
      run_loop self e (c # rest) = (Inr (), self, print ''Exiting...'' (asked e), rest))
   \<and> (fst (run_loop self e inp) = Inr () \<longrightarrow> (\<exists>c\<in>set inp. py_strip c = ''4''))
   \<and> (fst (run_interactive_mode self e inp) = Inr () \<longrightarrow> (\<exists>c\<in>set inp. py_strip c = ''4''))
   \<and> run_loop self e [] = (Inl EOFError, self, asked e, [])
   \<and> (loop_body self e inp = Break st \<longleftrightarrow>
        (\<exists>c rest. inp = c # rest \<and> py_strip c = ''4''
                  \<and> st = (self, print ''Exiting...'' (asked e), rest)))
   \<and> (fst (run_loop self e inp) = Inr () \<longleftrightarrow>
        (\<exists>k s' e' c rest. passes k (self, e, inp) = Some (s', e', c # rest) \<and> py_strip c = ''4''))
   \<and> (passes k (self, e, inp) = Some (s', e', c # rest) \<and> py_strip c = ''4'' \<longrightarrow>
        run_loop self e inp = (Inr (), s', print ''Exiting...'' (asked e'), rest))
   \<and> run_interactive_mode self e inp
       = run_loop self
           (print (''Connected to: '' @ ip_address self)
              (print (CHR 0x0A # ''Magewell Switcher Interactive Mode'') e)) inp
   \<and> (py_strip c = ''3'' \<and> cached_sources self = Some cached \<and> truthy cached \<longrightarrow>
        run_loop self e [c] = (Inl EOFError, self, write_prompt source_prompt (asked e), []))
   \<and> (fetched c cached sources self1 e1 \<and> \<not> truthy sources \<longrightarrow>
        run_loop self e (c # rest)
          = run_loop self1 (print ''Failed to retrieve sources. Please try again.'' e1) rest)
   \<and> (fetched c cached sources self1 e1 \<and> truthy sources
        \<and> display_ndi_sources sources e1 = (Inr (), e2) \<and> py_int line = Inl x \<longrightarrow>
        run_loop self e (c # line # rest)
          = run_loop (self1\<lparr>cached_sources := Some sources\<rparr>)
              (print ''Please enter a valid number.'' (write_prompt source_prompt e2)) rest)
   \<and> (fetched c cached sources self1 e1 \<and> truthy sources
        \<and> display_ndi_sources sources e1 = (Inr (), e2) \<and> py_int line = Inr idx
        \<and> (idx < 0 \<or> py_len sources = Inr n \<and> int n < idx) \<longrightarrow>
        run_loop self e (c # line # rest)
          = run_loop (self1\<lparr>cached_sources := Some sources\<rparr>)
              (print ''Invalid source number.'' (write_prompt source_prompt e2)) rest)
   \<and> (fetched c cached sources self1 e1 \<and> truthy sources
        \<and> display_ndi_sources sources e1 = (Inr (), e2) \<longrightarrow>
        run_loop self e [c]
          = (Inl EOFError, self1\<lparr>cached_sources := Some sources\<rparr>, write_prompt source_prompt e2, []))"
proof (intro conjI impI)
  assume "py_strip c \<notin> {''1'', ''2'', ''3'', ''4''}"
  then have "loop_body self e (c # rest)
               = Continue (self, print ''Invalid option. Please try again.'' (asked e), rest)"
    by (simp add: loop_body_Cons)
  then show "run_loop self e (c # rest)
               = run_loop self (print ''Invalid option. Please try again.'' (asked e)) rest"
    by (rule run_loop_Continue)
next
  assume a: "py_strip c = ''3'' \<and> cached_sources self = Some cached \<and> truthy cached
        \<and> py_int line = Inl x"
  then have "loop_body self e (c # line # rest)
               = Continue (self, print ''Please enter a valid number.''
                                   (write_prompt source_prompt (asked e)), rest)"
    by (simp add: loop_body_Cons option_switch_truthy select_source_invalid)
  then show "run_loop self e (c # line # rest)
               = run_loop self (print ''Please enter a valid number.''
                                  (write_prompt source_prompt (asked e))) rest"
    by (rule run_loop_Continue)
next
  assume a: "py_strip c = ''3'' \<and> cached_sources self = Some cached \<and> truthy cached
        \<and> py_int line = Inr idx \<and> (idx < 0 \<or> py_len cached = Inr n \<and> int n < idx)"
  then have "select_source self (asked e) (line # rest)
               = Continue (self, print ''Invalid source number.''
                                   (write_prompt source_prompt (asked e)), rest)"
    by (intro select_source_outside [of line idx self cached n]) auto
  with a have "loop_body self e (c # line # rest)
               = Continue (self, print ''Invalid source number.''
                                   (write_prompt source_prompt (asked e)), rest)"
    by (simp add: loop_body_Cons option_switch_truthy)
  then show "run_loop self e (c # line # rest)
               = run_loop self (print ''Invalid source number.''
                                  (write_prompt source_prompt (asked e))) rest"
    by (rule run_loop_Continue)
next
  show "printed (asked e) = printed e @
        [Print (CHR 0x0A # ''Options:''), Print ''1. Show current channel'', Print ''2. List NDI sources'',
         Print ''3. Switch to a source'', Print ''4. Exit'', Prompt option_prompt]"
    by (rule printed_asked)
next
  assume "py_strip c = ''4''"
  then show "run_loop self e (c # rest) = (Inr (), self, print ''Exiting...'' (asked e), rest)"
    by (simp add: run_loop_Break loop_body_Cons)
next
  assume "fst (run_loop self e inp) = Inr ()"
  then show "\<exists>c\<in>set inp. py_strip c = ''4''"
    by (rule run_loop_exit)
next
  assume "fst (run_interactive_mode self e inp) = Inr ()"
  then show "\<exists>c\<in>set inp. py_strip c = ''4''"
    unfolding run_interactive_mode_def by (rule run_loop_exit)
next
  show "run_loop self e [] = (Inl EOFError, self, asked e, [])"
    by (simp add: run_loop_Raise loop_body_Nil)
next
  show "loop_body self e inp = Break st \<longleftrightarrow>
        (\<exists>c rest. inp = c # rest \<and> py_strip c = ''4''
                  \<and> st = (self, print ''Exiting...'' (asked e), rest))"
    by (rule loop_body_Break)
next
  show "fst (run_loop self e inp) = Inr () \<longleftrightarrow>
        (\<exists>k s' e' c rest. passes k (self, e, inp) = Some (s', e', c # rest) \<and> py_strip c = ''4'')"
    using run_loop_Inr_passes [of self e inp] run_loop_passes [of _ self e inp]
    by (metis fst_conv)
next
  assume "passes k (self, e, inp) = Some (s', e', c # rest) \<and> py_strip c = ''4''"
  then show "run_loop self e inp = (Inr (), s', print ''Exiting...'' (asked e'), rest)"
    using run_loop_passes by blast
next
  show "run_interactive_mode self e inp
       = run_loop self
           (print (''Connected to: '' @ ip_address self)
              (print (CHR 0x0A # ''Magewell Switcher Interactive Mode'') e)) inp"
    by (simp add: run_interactive_mode_def)
next
  assume "py_strip c = ''3'' \<and> cached_sources self = Some cached \<and> truthy cached"
  then have "loop_body self e [c] = Raise EOFError (self, write_prompt source_prompt (asked e), [])"
    by (simp add: loop_body_Cons option_switch_truthy select_source_Nil)
  then show "run_loop self e [c] = (Inl EOFError, self, write_prompt source_prompt (asked e), [])"
    by (rule run_loop_Raise)
next
  assume a: "fetched c cached sources self1 e1 \<and> \<not> truthy sources"
  then have "loop_body self e (c # rest)
               = Continue (self1, print ''Failed to retrieve sources. Please try again.'' e1, rest)"
    unfolding fetched_def
    by (simp add: loop_body_Cons option_switch_fetch(1) [of self cached "asked e" sources self1 e1])
  then show "run_loop self e (c # rest)
          = run_loop self1 (print ''Failed to retrieve sources. Please try again.'' e1) rest"
    by (rule run_loop_Continue)
next
  assume a: "fetched c cached sources self1 e1 \<and> truthy sources
        \<and> display_ndi_sources sources e1 = (Inr (), e2) \<and> py_int line = Inl x"
  then have "loop_body self e (c # line # rest)
               = Continue (self1\<lparr>cached_sources := Some sources\<rparr>,
                   print ''Please enter a valid number.'' (write_prompt source_prompt e2), rest)"
    unfolding fetched_def
    by (simp add: loop_body_Cons option_switch_fetch(2) [of self cached "asked e" sources self1 e1]
                  select_source_invalid)
  then show "run_loop self e (c # line # rest)
          = run_loop (self1\<lparr>cached_sources := Some sources\<rparr>)
              (print ''Please enter a valid number.'' (write_prompt source_prompt e2)) rest"
    by (rule run_loop_Continue)
next
  assume a: "fetched c cached sources self1 e1 \<and> truthy sources
        \<and> display_ndi_sources sources e1 = (Inr (), e2) \<and> py_int line = Inr idx
        \<and> (idx < 0 \<or> py_len sources = Inr n \<and> int n < idx)"
  then have "select_source (self1\<lparr>cached_sources := Some sources\<rparr>) e2 (line # rest)
               = Continue (self1\<lparr>cached_sources := Some sources\<rparr>,
                   print ''Invalid source number.'' (write_prompt source_prompt e2), rest)"
    by (intro select_source_outside [of line idx _ sources n]) auto
  with a have "loop_body self e (c # line # rest)
               = Continue (self1\<lparr>cached_sources := Some sources\<rparr>,
                   print ''Invalid source number.'' (write_prompt source_prompt e2), rest)"
    unfolding fetched_def
    by (simp add: loop_body_Cons option_switch_fetch(2) [of self cached "asked e" sources self1 e1])
  then show "run_loop self e (c # line # rest)
          = run_loop (self1\<lparr>cached_sources := Some sources\<rparr>)
              (print ''Invalid source number.'' (write_prompt source_prompt e2)) rest"
    by (rule run_loop_Continue)
next
  assume a: "fetched c cached sources self1 e1 \<and> truthy sources
        \<and> display_ndi_sources sources e1 = (Inr (), e2)"
  then have "loop_body self e [c]
               = Raise EOFError (self1\<lparr>cached_sources := Some sources\<rparr>,
                   write_prompt source_prompt e2, [])"
    unfolding fetched_def
    by (simp add: loop_body_Cons option_switch_fetch(2) [of self cached "asked e" sources self1 e1]
                  select_source_Nil)
  then show "run_loop self e [c]
          = (Inl EOFError, self1\<lparr>cached_sources := Some sources\<rparr>, write_prompt source_prompt e2, [])"
    by (rule run_loop_Raise)
qed


theorem loop_goes_on_until_exit_witness:
  "run_loop ex_cached (ex_env (\<lambda>n rq. TransportError)) [''9'', ''3'', ''x'', '' 3'', ''7'', ''4 '', ''1'']
     = (Inr (), ex_cached,
        print ''Exiting...'' (asked
          (print ''Invalid source number.'' (write_prompt source_prompt (asked
            (print ''Please enter a valid number.'' (write_prompt source_prompt (asked
              (print ''Invalid option. Please try again.'' (asked
                 (ex_env (\<lambda>n rq. TransportError))))))))))),
        [''1''])
   \<and> run_loop ex_cached (ex_env (\<lambda>n rq. TransportError)) [''3'']
     = (Inl EOFError, ex_cached,
        write_prompt source_prompt (asked (ex_env (\<lambda>n rq. TransportError))), [])
   \<and> run_loop (ex_switcher\<lparr>authenticated := True\<rparr>) (ex_env (\<lambda>n rq. TransportError)) [''3'', ''4'']
     = (Inr (), ex_switcher\<lparr>authenticated := True\<rparr>,
        print ''Exiting...'' (asked
          (print ''Failed to retrieve sources. Please try again.''
             (log (LogException ''Error getting NDI sources: '' RequestException)
                ((print ''Fetching available sources first...''
                    (asked (ex_env (\<lambda>n rq. TransportError))))
                 \<lparr>sent := [get_ndi_sources_params (ex_switcher\<lparr>authenticated := True\<rparr>)]\<rparr>)))),
        [])"
proof (intro conjI)
  let ?e0 = "ex_env (\<lambda>n rq. TransportError)"
  let ?e1 = "print ''Invalid option. Please try again.'' (asked ?e0)"
  let ?e2 = "print ''Please enter a valid number.'' (write_prompt source_prompt (asked ?e1))"
  let ?e3 = "print ''Invalid source number.'' (write_prompt source_prompt (asked ?e2))"
  have c: "cached_sources ex_cached = Some ex_sources" "truthy ex_sources" "py_len ex_sources = Inr 3"
    by (simp_all add: ex_cached_def ex_sources_def)
  have s: "py_strip ''9'' \<notin> {''1'', ''2'', ''3'', ''4''}" "py_strip '' 3'' = ''3''" "py_strip ''4 '' = ''4''"
    by (simp_all add: py_strip_def is_space_def)
  have i: "py_int ''x'' = Inl ValueError" "py_int ''7'' = Inr 7"
    by (simp_all add: py_int_def is_int_space_def is_digit_def digits_value_def int_max_str_digits_def)
  have "run_loop ex_cached ?e0 [''9'', ''3'', ''x'', '' 3'', ''7'', ''4 '', ''1'']
          = run_loop ex_cached ?e1 [''3'', ''x'', '' 3'', ''7'', ''4 '', ''1'']"
    using loop_goes_on_until_exit [where c = "''9''" and self = ex_cached and e = ?e0
            and rest = "[''3'', ''x'', '' 3'', ''7'', ''4 '', ''1'']", THEN conjunct1] s
    by simp
  also have "\<dots> = run_loop ex_cached ?e2 ['' 3'', ''7'', ''4 '', ''1'']"
    using loop_goes_on_until_exit [where c = "''3''" and self = ex_cached and e = ?e1
            and line = "''x''" and x = ValueError and rest = "['' 3'', ''7'', ''4 '', ''1'']"
            and cached = ex_sources, THEN conjunct2, THEN conjunct1]
          c i py_strip_digit
    by simp
  also have "\<dots> = run_loop ex_cached ?e3 [''4 '', ''1'']"
    using loop_goes_on_until_exit [where c = "'' 3''" and self = ex_cached and e = ?e2
            and line = "''7''" and idx = 7 and rest = "[''4 '', ''1'']"
            and cached = ex_sources and n = 3,
            THEN conjunct2, THEN conjunct2, THEN conjunct1] c i s
    by simp
  also have "\<dots> = (Inr (), ex_cached, print ''Exiting...'' (asked ?e3), [''1''])"
    using loop_goes_on_until_exit [where c = "''4 ''" and self = ex_cached and e = ?e3
            and rest = "[''1'']", THEN conjunct2, THEN conjunct2, THEN conjunct2, THEN conjunct2,
            THEN conjunct1] s
    by simp
  finally show "run_loop ex_cached ?e0 [''9'', ''3'', ''x'', '' 3'', ''7'', ''4 '', ''1'']
                  = (Inr (), ex_cached, print ''Exiting...'' (asked ?e3), [''1''])" .
  note c2 = conjunct2
  show "run_loop ex_cached ?e0 [''3'']
          = (Inl EOFError, ex_cached, write_prompt source_prompt (asked ?e0), [])"
    using loop_goes_on_until_exit [where c = "''3''" and self = ex_cached and e = ?e0
            and cached = ex_sources,
            THEN c2, THEN c2, THEN c2, THEN c2, THEN c2, THEN c2, THEN c2, THEN c2, THEN c2,
            THEN c2, THEN c2, THEN c2, THEN conjunct1]
          c py_strip_digit
    by simp
  let ?s = "ex_switcher\<lparr>authenticated := True\<rparr>"
  let ?f = "log (LogException ''Error getting NDI sources: '' RequestException)
              ((print ''Fetching available sources first...'' (asked ?e0))
               \<lparr>sent := [get_ndi_sources_params ?s]\<rparr>)"
  have n: "cached_sources ?s = None"
    by (simp add: ex_switcher_def init_def)
  have g: "get_ndi_sources ?s (print ''Fetching available sources first...'' (asked ?e0))
             = (Inr PNone, ?s, ?f)"
    by (simp add: get_ndi_sources_def check_auth_def get_ndi_sources_try_def get_status_def
                  session_get_def except_Exception_def ex_env_def write_prompt_def asked_def
                  menu_def print_def log_def)
  have "run_loop ?s ?e0 [''3'', ''4'']
          = run_loop ?s (print ''Failed to retrieve sources. Please try again.'' ?f) [''4'']"
    using loop_goes_on_until_exit [where c = "''3''" and self = ?s and e = ?e0
            and sources = PNone and ?self1.0 = ?s and ?e1.0 = ?f and rest = "[''4'']",
            THEN c2, THEN c2, THEN c2, THEN c2, THEN c2, THEN c2, THEN c2, THEN c2, THEN c2,
            THEN c2, THEN c2, THEN c2, THEN c2, THEN conjunct1]
          n g py_strip_digit
    by simp
  also have "\<dots> = (Inr (), ?s, print ''Exiting...''
                       (asked (print ''Failed to retrieve sources. Please try again.'' ?f)), [])"
    using loop_goes_on_until_exit [where c = "''4''" and self = ?s
            and e = "print ''Failed to retrieve sources. Please try again.'' ?f"
            and rest = "[]", THEN c2, THEN c2, THEN c2, THEN c2, THEN conjunct1] py_strip_digit
    by simp
  finally show "run_loop ?s ?e0 [''3'', ''4'']
     = (Inr (), ?s, print ''Exiting...''
          (asked (print ''Failed to retrieve sources. Please try again.'' ?f)), [])" .
qed

theorem loop_goes_on_until_exit_counterexample:
  "fst (run_interactive_mode ex_switcher (ex_env (\<lambda>n rq. TransportError)) []) = Inl EOFError"
  unfolding run_interactive_mode_def
  by (subst run_loop.simps) (simp add: loop_body_Nil)

section \<open>An empty list of sources\<close>

lemma sources_try_self:
  "fst (snd (except_Exception (get_ndi_sources_try self e)
      (\<lambda>x self2 e2. (Inr PNone, self2, log (LogException a x) e2)))) = self"
  by (auto simp add: get_ndi_sources_try_def except_Exception_def
           split: sum.splits prod.splits)

lemma check_auth_cached:
  "cached_sources (fst (snd (check_auth self e))) = cached_sources self"
  by (simp add: check_auth_def) (subst login_cases, simp)

lemma sources_cached:
  "cached_sources (fst (snd (get_ndi_sources self e))) = cached_sources self"
proof -
  obtain ok self1 e1 where c: "check_auth self e = (Inr ok, self1, e1)" by (rule check_auth_obtain)
  have "cached_sources self1 = cached_sources self"
    using check_auth_cached [of self e] c by simp
  then show ?thesis
    by (simp add: sources_unfold [OF c] sources_try_self)
qed

text \<open>
  C10. When \<^verbatim>\<open>get_ndi_sources\<close> returns the empty list, the option \<^verbatim>\<open>2\<close> of the
  interactive mode prints \<^verbatim>\<open>Failed to retrieve NDI sources.\<close>, leaves the cache of the
  object as it was, and the loop goes on; the subcommand \<^verbatim>\<open>list\<close> of \<^verbatim>\<open>main\<close> prints the
  same message and returns. Both do the very same when \<^verbatim>\<open>get_ndi_sources\<close> returns
  \<^verbatim>\<open>None\<close>, its result for a failed request. The empty list is what \<^verbatim>\<open>get_ndi_sources\<close>
  returns when the device reports status 0 in an object without the field \<^verbatim>\<open>sources\<close>.
\<close>

theorem empty_list_reported_as_failure:
  "(get_ndi_sources self (asked e) = (Inr sources, self1, e1)
      \<and> (sources = PList [] \<or> sources = PNone) \<longrightarrow>
        loop_body self e (''2'' # rest)
          = Continue (self1, print ''Failed to retrieve NDI sources.'' e1, rest)
        \<and> cached_sources self1 = cached_sources self)
   \<and> (login (init ip user pw) e = (Inr True, switcher1, e1')
      \<and> get_ndi_sources switcher1 e1' = (Inr sources', switcher2, e2)
      \<and> (sources' = PList [] \<or> sources' = PNone) \<longrightarrow>
        main \<lparr>arg_ip = ip, arg_username = user, arg_password = pw, arg_command = Some CmdList\<rparr> e inp
          = (Inr (), print ''Failed to retrieve NDI sources.'' e2, inp))
   \<and> (authenticated self
      \<and> next_reply e (get_ndi_sources_params self) = Response (Some (PDict kvs))
      \<and> status_zero (Response (Some (PDict kvs))) \<and> map_of kvs ''sources'' = None \<longrightarrow>
        fst (get_ndi_sources self e) = Inr (PList []))"
proof (intro conjI impI)
  assume a: "get_ndi_sources self (asked e) = (Inr sources, self1, e1)
      \<and> (sources = PList [] \<or> sources = PNone)"
  then have "\<not> truthy sources" by auto
  with a show "loop_body self e (''2'' # rest)
          = Continue (self1, print ''Failed to retrieve NDI sources.'' e1, rest)"
    by (simp add: loop_body_Cons py_strip_digit option_list_def)
  show "cached_sources self1 = cached_sources self"
    using a sources_cached [of self "asked e"] by simp
next
  assume a: "login (init ip user pw) e = (Inr True, switcher1, e1')
      \<and> get_ndi_sources switcher1 e1' = (Inr sources', switcher2, e2)
      \<and> (sources' = PList [] \<or> sources' = PNone)"
  then have "\<not> truthy sources'" by auto
  with a show "main \<lparr>arg_ip = ip, arg_username = user, arg_password = pw, arg_command = Some CmdList\<rparr> e inp
          = (Inr (), print ''Failed to retrieve NDI sources.'' e2, inp)"
    by (simp add: main_def)
next
  assume a: "authenticated self
      \<and> next_reply e (get_ndi_sources_params self) = Response (Some (PDict kvs))
      \<and> status_zero (Response (Some (PDict kvs))) \<and> map_of kvs ''sources'' = None"
  then have c: "check_auth self e = (Inr True, self, e)"
    by (simp add: check_auth_def)
  show "fst (get_ndi_sources self e) = Inr (PList [])"
    using a by (simp add: sources_unfold [OF c] sources_try)
qed

theorem empty_list_reported_as_failure_witness:
  "loop_body ex_cached (ex_env (\<lambda>n rq. ok_body [])) [''2'']
     = Continue (ex_cached,
         print ''Failed to retrieve NDI sources.''
           ((asked (ex_env (\<lambda>n rq. ok_body [])))\<lparr>sent := [get_ndi_sources_params ex_cached]\<rparr>), [])
   \<and> printed (fst (snd (main \<lparr>arg_ip = ''10.0.0.9'', arg_username = ''Admin'', arg_password = ''Admin'',
                              arg_command = Some CmdList\<rparr> (ex_env (\<lambda>n rq. ok_body [])) [])))
     = [Print ''Failed to retrieve NDI sources.'']"
proof -
  let ?e = "ex_env (\<lambda>n rq. ok_body [])"
  let ?s = "init ''10.0.0.9'' ''Admin'' ''Admin''"
  let ?s1 = "?s\<lparr>authenticated := True\<rparr>"
  let ?e1 = "log (LogInfo (''Successfully logged in to '' @ ip_address ?s)) (?e\<lparr>sent := [login_params ?s]\<rparr>)"
  have g: "get_ndi_sources ex_cached (asked ?e)
             = (Inr (PList []), ex_cached, (asked ?e)\<lparr>sent := [get_ndi_sources_params ex_cached]\<rparr>)"
    by (simp add: get_ndi_sources_def check_auth_def ex_cached_def get_ndi_sources_try_def
                  get_status_def session_get_def response_json_def except_Exception_def ok_body_def
                  ex_env_def write_prompt_def asked_def menu_def print_def)
  have l: "login ?s ?e = (Inr True, ?s1, ?e1)"
    by (simp add: login_def login_try_def get_status_def session_get_def response_json_def
                  except_Exception_def ok_body_def ex_env_def log_def)
  have g2: "get_ndi_sources ?s1 ?e1
              = (Inr (PList []), ?s1, ?e1\<lparr>sent := [login_params ?s, get_ndi_sources_params ?s1]\<rparr>)"
    by (simp add: get_ndi_sources_def check_auth_def get_ndi_sources_try_def
                  get_status_def session_get_def response_json_def except_Exception_def ok_body_def
                  ex_env_def log_def)
  show ?thesis
    using empty_list_reported_as_failure
            [where self = ex_cached and e = ?e and sources = "PList []" and ?self1.0 = ex_cached
               and ?e1.0 = "(asked ?e)\<lparr>sent := [get_ndi_sources_params ex_cached]\<rparr>" and rest = "[]"
               and ip = "''10.0.0.9''" and user = "''Admin''" and pw = "''Admin''"
               and ?switcher1.0 = ?s1 and e1' = ?e1 and sources' = "PList []" and ?switcher2.0 = ?s1
               and ?e2.0 = "?e1\<lparr>sent := [login_params ?s, get_ndi_sources_params ?s1]\<rparr>" and inp = "[]"]
          g l g2
    by (simp add: print_def log_def ex_env_def)
qed

section \<open>The requests of a run\<close>

lemma check_auth_sent: "prefix (sent e) (sent (snd (snd (check_auth self e))))"
  by (simp add: check_auth_def login_env)

lemma current_sent:
  assumes "get_current_channel self e = (r, self2, e2)"
  shows "prefix (sent e) (sent e2)"
proof -
  obtain ok self1 e1 where c: "check_auth self e = (Inr ok, self1, e1)" by (rule check_auth_obtain)
  have "prefix (sent e) (sent e1)"
    using check_auth_sent [of e self] c by simp
  moreover have "prefix (sent e1) (sent (snd (snd (get_current_channel self e))))"
    by (simp add: current_unfold [OF c] try_sent)
  ultimately show ?thesis
    using assms by (auto intro: prefix_order.trans)
qed

lemma sources_sent:
  assumes "get_ndi_sources self e = (r, self2, e2)"
  shows "prefix (sent e) (sent e2)"
proof -
  obtain ok self1 e1 where c: "check_auth self e = (Inr ok, self1, e1)" by (rule check_auth_obtain)
  have "prefix (sent e) (sent e1)"
    using check_auth_sent [of e self] c by simp
  moreover have "prefix (sent e1) (sent (snd (snd (get_ndi_sources self e))))"
    by (simp add: sources_unfold [OF c] try_sent)
  ultimately show ?thesis
    using assms by (auto intro: prefix_order.trans)
qed

lemma set_sent:
  assumes "set_channel self e name = (r, self2, e2)"
  shows "prefix (sent e) (sent e2)"
proof -
  obtain ok self1 e1 where c: "check_auth self e = (Inr ok, self1, e1)" by (rule check_auth_obtain)
  have "prefix (sent e) (sent e1)"
    using check_auth_sent [of e self] c by simp
  moreover have "prefix (sent e1) (sent (snd (snd (set_channel self e name))))"
    by (simp add: set_unfold [OF c] try_sent)
  ultimately show ?thesis
    using assms by (auto intro: prefix_order.trans)
qed

lemma display_rows_sent: "display_rows idx srcs e = (r, e1) \<Longrightarrow> sent e1 = sent e"
  by (induction srcs arbitrary: idx e) (auto split: sum.splits)

lemma display_sent: "display_ndi_sources sources e = (r, e1) \<Longrightarrow> sent e1 = sent e"
  by (auto simp add: display_ndi_sources_def Let_def split: sum.splits if_splits
           dest: display_rows_sent)

lemma show_channel_sent: "show_channel channel e = (r, e1) \<Longrightarrow> sent e1 = sent e"
  by (auto simp add: show_channel_def Let_def split: sum.splits if_splits)

lemma select_source_sent:
  "prefix (sent e) (sent (fst (snd (flow_shell (select_source self e inp)))))"
  by (auto simp add: select_source_def select_source_try_def py_input_def
           split: list.splits sum.splits prod.splits option.splits if_splits flow.splits
           dest: set_sent)

lemma option_current_sent:
  "prefix (sent e) (sent (fst (snd (flow_shell (option_current self e inp)))))"
  by (auto simp add: option_current_def split: sum.splits prod.splits dest: current_sent)
     (metis current_sent show_channel_sent)+

lemma option_list_sent:
  "prefix (sent e) (sent (fst (snd (flow_shell (option_list self e inp)))))"
  by (auto simp add: option_list_def split: sum.splits prod.splits dest: sources_sent)
     (metis sources_sent display_sent)+

lemma option_switch_sent:
  "prefix (sent e) (sent (fst (snd (flow_shell (option_switch self e inp)))))"
proof (cases "case cached_sources self of None \<Rightarrow> True | Some cached \<Rightarrow> \<not> truthy cached")
  case False
  then show ?thesis
    by (simp add: option_switch_def select_source_sent)
next
  case True
  obtain r self1 e1
    where g: "get_ndi_sources self (print ''Fetching available sources first...'' e) = (r, self1, e1)"
    by (cases "get_ndi_sources self (print ''Fetching available sources first...'' e)")
  have p: "prefix (sent e) (sent e1)"
    using sources_sent [OF g] by simp
  show ?thesis
  proof (cases r)
    case (Inl x)
    then show ?thesis using True g p by (simp add: option_switch_def)
  next
    case (Inr sources)
    show ?thesis
    proof (cases "truthy sources")
      case f: False
      then show ?thesis using True g p Inr by (simp add: option_switch_def)
    next
      case t: True
      obtain r2 e2 where d: "display_ndi_sources sources e1 = (r2, e2)"
        by (cases "display_ndi_sources sources e1")
      have p2: "prefix (sent e) (sent e2)"
        using p display_sent [OF d] by simp
      show ?thesis
      proof (cases r2)
        case (Inl x)
        then show ?thesis using True g Inr t d p2 by (simp add: option_switch_def)
      next
        case r2: (Inr u)
        have "prefix (sent e2) (sent (fst (snd (flow_shell
                (select_source (self1\<lparr>cached_sources := Some sources\<rparr>) e2 inp)))))"
          by (rule select_source_sent)
        with p2 have "prefix (sent e) (sent (fst (snd (flow_shell
                (select_source (self1\<lparr>cached_sources := Some sources\<rparr>) e2 inp)))))"
          by (rule prefix_order.trans)
        then show ?thesis using True g Inr t d r2 by (simp add: option_switch_def)
      qed
    qed
  qed
qed

lemma loop_body_sent:
  "prefix (sent e) (sent (fst (snd (flow_shell (loop_body self e inp)))))"
proof (cases inp)
  case Nil
  then show ?thesis by (simp add: loop_body_Nil)
next
  case (Cons c rest)
  show ?thesis
    using option_current_sent [of "asked e" self rest] option_list_sent [of "asked e" self rest]
          option_switch_sent [of "asked e" self rest]
    by (simp add: Cons loop_body_Cons)
qed

lemma run_loop_sent:
  "prefix (sent e) (sent (fst (snd (snd (run_loop self e inp)))))"
proof (induction self e inp rule: run_loop.induct)
  case (1 self e inp)
  show ?case
  proof (cases "loop_body self e inp")
    case (Continue st)
    obtain self1 e1 inp1 where st: "st = (self1, e1, inp1)" by (cases st)
    have "prefix (sent e) (sent e1)"
      using loop_body_sent [of e self inp] Continue st by simp
    moreover have "prefix (sent e1) (sent (fst (snd (snd (run_loop self1 e1 inp1)))))"
      using "1.IH" [OF Continue st [symmetric] refl] .
    ultimately show ?thesis
      using Continue st by (subst run_loop.simps) (auto intro: prefix_order.trans)
  next
    case (Break st)
    then show ?thesis
      using loop_body_sent [of e self inp] by (subst run_loop.simps) simp
  next
    case (Raise x st)
    then show ?thesis
      using loop_body_sent [of e self inp] by (subst run_loop.simps) simp
  qed
qed


section \<open>The exit status\<close>

lemma current_value:
  "fst (get_current_channel self e) = Inr v \<Longrightarrow> v = PNone \<or> (\<exists>kvs. v = PDict kvs)"
proof -
  obtain ok self1 e1 where c: "check_auth self e = (Inr ok, self1, e1)" by (rule check_auth_obtain)
  assume "fst (get_current_channel self e) = Inr v"
  then show ?thesis
    by (auto simp add: current_unfold [OF c] current_try status_zero_def
             split: if_splits response.splits option.splits pyval.splits)
qed

lemma show_channel_Inr:
  "v = PNone \<or> (\<exists>kvs. v = PDict kvs) \<Longrightarrow> \<exists>e3. show_channel v e = (Inr (), e3)"
  by (auto simp add: show_channel_def Let_def)

lemma login_obtain:
  obtains eL where
    "login self e =
       (Inr (status_zero (next_reply e (login_params self))),
        (if status_zero (next_reply e (login_params self)) then self\<lparr>authenticated := True\<rparr> else self),
        eL)"
    and "sent eL = sent e @ [login_params self]" and "printed eL = printed e"
proof -
  have "login self e =
       (Inr (status_zero (next_reply e (login_params self))),
        (if status_zero (next_reply e (login_params self)) then self\<lparr>authenticated := True\<rparr> else self),
        snd (snd (login self e)))"
    by (subst login_cases) simp
  then show ?thesis
    using login_env [of self e] that by blast
qed

lemma main_login_failed:
  assumes "\<not> status_zero (next_reply e (login_params (init (arg_ip a) (arg_username a) (arg_password a))))"
  shows "fst (main a e inp) = Inl (SystemExit 1)
       \<and> printed (fst (snd (main a e inp)))
           = printed e @ [Print (''Failed to authenticate with switcher at '' @ arg_ip a)]
       \<and> sent (fst (snd (main a e inp)))
           = sent e @ [login_params (init (arg_ip a) (arg_username a) (arg_password a))]"
proof -
  let ?sw = "init (arg_ip a) (arg_username a) (arg_password a)"
  obtain eL where l: "login ?sw e = (Inr False, ?sw, eL)"
    and eL: "sent eL = sent e @ [login_params ?sw]" "printed eL = printed e"
    using login_obtain [of ?sw e] assms by auto
  show ?thesis
    by (simp add: main_def Let_def l eL print_def)
qed

lemma main_sent:
  "\<exists>more. sent (fst (snd (main a e inp)))
            = sent e @ login_params (init (arg_ip a) (arg_username a) (arg_password a)) # more"
proof -
  let ?sw = "init (arg_ip a) (arg_username a) (arg_password a)"
  obtain ok sw1 eL where l: "login ?sw e = (Inr ok, sw1, eL)"
    and eL: "sent eL = sent e @ [login_params ?sw]"
    using login_obtain [of ?sw e] by metis
  have ext: "\<exists>more. sent e2 = sent e @ login_params ?sw # more" if "prefix (sent eL) (sent e2)" for e2
    using that eL by (auto simp add: prefix_def)
  show ?thesis
  proof (cases ok)
    case False
    then show ?thesis
      by (simp add: main_def Let_def l eL)
  next
    case True
    show ?thesis
    proof (cases "arg_command a")
      case None
      then show ?thesis
        using True by (simp add: main_def Let_def l eL)
    next
      case (Some c)
      show ?thesis
      proof (cases c)
        case CmdCurrent
        obtain r sw2 e2 where g: "get_current_channel sw1 eL = (r, sw2, e2)"
          by (cases "get_current_channel sw1 eL")
        obtain r3 e3 where d: "show_channel (case r of Inr v \<Rightarrow> v | Inl x \<Rightarrow> PNone) e2 = (r3, e3)"
          by (cases "show_channel (case r of Inr v \<Rightarrow> v | Inl x \<Rightarrow> PNone) e2")
        have "prefix (sent eL) (sent e2)" "sent e3 = sent e2"
          using current_sent [OF g] show_channel_sent [OF d] by simp_all
        then have "\<exists>more. sent e2 = sent e @ login_params ?sw # more"
          and "\<exists>more. sent e3 = sent e @ login_params ?sw # more"
          using ext by metis+
        then show ?thesis
          using True Some CmdCurrent g d
          by (cases r) (simp_all add: main_def Let_def l)
      next
        case CmdList
        obtain r sw2 e2 where g: "get_ndi_sources sw1 eL = (r, sw2, e2)"
          by (cases "get_ndi_sources sw1 eL")
        obtain r3 e3 where d: "display_ndi_sources (case r of Inr v \<Rightarrow> v | Inl x \<Rightarrow> PNone) e2 = (r3, e3)"
          by (cases "display_ndi_sources (case r of Inr v \<Rightarrow> v | Inl x \<Rightarrow> PNone) e2")
        have "prefix (sent eL) (sent e2)" "sent e3 = sent e2"
          using sources_sent [OF g] display_sent [OF d] by simp_all
        then have "\<exists>more. sent e2 = sent e @ login_params ?sw # more"
          and "\<exists>more. sent e3 = sent e @ login_params ?sw # more"
          using ext by metis+
        then show ?thesis
          using True Some CmdList g d
          by (cases r) (simp_all add: main_def Let_def l)
      next
        case (CmdSet source)
        obtain r sw2 e2 where g: "set_channel sw1 eL (PStr source) = (r, sw2, e2)"
          by (cases "set_channel sw1 eL (PStr source)")
        have "\<exists>more. sent e2 = sent e @ login_params ?sw # more"
          by (rule ext [OF set_sent [OF g]])
        then show ?thesis
          using True Some CmdSet g
          by (cases r) (simp_all add: main_def Let_def l)
      next
        case CmdInteractive
        obtain r sw2 e2 inp2 where g: "run_interactive_mode sw1 eL inp = (r, sw2, e2, inp2)"
          by (cases "run_interactive_mode sw1 eL inp")
        have "prefix (sent eL) (sent e2)"
          using run_loop_sent [of "print (''Connected to: '' @ ip_address sw1)
                                     (print (CHR 0x0A # ''Magewell Switcher Interactive Mode'') eL)" sw1 inp] g
          by (simp add: run_interactive_mode_def)
        then have "\<exists>more. sent e2 = sent e @ login_params ?sw # more"
          by (rule ext)
        then show ?thesis
          using True Some CmdInteractive g
          by (simp add: main_def Let_def l)
      qed
    qed
  qed
qed


lemma main_dispatch:
  assumes "status_zero (next_reply e (login_params (init (arg_ip a) (arg_username a) (arg_password a))))"
  obtains eL where
    "login (init (arg_ip a) (arg_username a) (arg_password a)) e
       = (Inr True, (init (arg_ip a) (arg_username a) (arg_password a))\<lparr>authenticated := True\<rparr>, eL)"
  using login_obtain [of "init (arg_ip a) (arg_username a) (arg_password a)" e] assms by auto

text \<open>
  C8, as the code has it. \<^verbatim>\<open>main\<close> logs in before anything else: whatever the
  subcommand, the first request of the run is the login request. When the login fails,
  \<^verbatim>\<open>main\<close> prints \<^verbatim>\<open>Failed to authenticate with switcher at\<close> and the address, makes no
  other request and leaves through \<^verbatim>\<open>sys.exit(1)\<close>: the exit status is 1. When the login
  succeeds, the exit status is 0 for \<^verbatim>\<open>current\<close>, for \<^verbatim>\<open>set\<close> and without a
  subcommand, whatever the device answers to the subcommand, and for \<^verbatim>\<open>list\<close> when the
  fetch fails or gives nothing, or gives sources that are JSON objects with strings (or
  nothing) as name and address; for \<^verbatim>\<open>interactive\<close> the result of \<^verbatim>\<open>main\<close> is the
  result of \<^verbatim>\<open>run_interactive_mode\<close>.
\<close>

theorem main_exit_status:
  fixes a :: args and e :: env and inp :: "string list"
  defines "sw \<equiv> init (arg_ip a) (arg_username a) (arg_password a)"
  defines "eL \<equiv> snd (snd (login sw e))"
  shows "(\<exists>more. sent (fst (snd (main a e inp))) = sent e @ login_params sw # more)
       \<and> (\<not> status_zero (next_reply e (login_params sw)) \<longrightarrow>
            fst (main a e inp) = Inl (SystemExit 1)
            \<and> exit_status (fst (main a e inp)) = 1
            \<and> printed (fst (snd (main a e inp)))
                = printed e @ [Print (''Failed to authenticate with switcher at '' @ arg_ip a)]
            \<and> sent (fst (snd (main a e inp))) = sent e @ [login_params sw])
       \<and> (status_zero (next_reply e (login_params sw))
            \<and> (arg_command a = None \<or> arg_command a = Some CmdCurrent
                \<or> arg_command a = Some (CmdSet source)) \<longrightarrow>
            fst (main a e inp) = Inr () \<and> exit_status (fst (main a e inp)) = 0)
       \<and> (status_zero (next_reply e (login_params sw)) \<and> arg_command a = Some CmdList
            \<and> fst (get_ndi_sources (sw\<lparr>authenticated := True\<rparr>) eL) = Inr sources
            \<and> (\<not> truthy sources
                \<or> sources = PList srcs
                  \<and> (\<forall>src\<in>set srcs. text_field src ''ndi-name'' \<noteq> None
                                      \<and> text_field src ''ip-addr'' \<noteq> None)) \<longrightarrow>
            fst (main a e inp) = Inr () \<and> exit_status (fst (main a e inp)) = 0)
       \<and> (status_zero (next_reply e (login_params sw)) \<and> arg_command a = Some CmdInteractive \<longrightarrow>
            fst (main a e inp) = fst (run_interactive_mode (sw\<lparr>authenticated := True\<rparr>) eL inp))"
proof (intro conjI impI)
  show "\<exists>more. sent (fst (snd (main a e inp))) = sent e @ login_params sw # more"
    unfolding sw_def by (rule main_sent)
next
  assume f: "\<not> status_zero (next_reply e (login_params sw))"
  note m = main_login_failed [OF f [unfolded sw_def], of inp]
  show "fst (main a e inp) = Inl (SystemExit 1)"
    and "printed (fst (snd (main a e inp)))
           = printed e @ [Print (''Failed to authenticate with switcher at '' @ arg_ip a)]"
    and "sent (fst (snd (main a e inp))) = sent e @ [login_params sw]"
    using m by (simp_all add: sw_def)
  then show "exit_status (fst (main a e inp)) = 1"
    by (simp add: exit_status_def)
next
  assume s: "status_zero (next_reply e (login_params sw))
            \<and> (arg_command a = None \<or> arg_command a = Some CmdCurrent
                \<or> arg_command a = Some (CmdSet source))"
  obtain eL' where l: "login sw e = (Inr True, sw\<lparr>authenticated := True\<rparr>, eL')"
    using s main_dispatch [of e a] unfolding sw_def by blast
  have cur: "fst (case get_current_channel (sw\<lparr>authenticated := True\<rparr>) eL' of
                    (Inl x, switcher2, e2) \<Rightarrow> (Inl x, e2, inp)
                  | (Inr channel, switcher2, e2) \<Rightarrow>
                      (case show_channel channel e2 of (r, e3) \<Rightarrow> (r, e3, inp))) = Inr ()"
  proof -
    obtain v where "fst (get_current_channel (sw\<lparr>authenticated := True\<rparr>) eL') = Inr v"
      using current_Inr by blast
    then obtain sw2 e2 where g: "get_current_channel (sw\<lparr>authenticated := True\<rparr>) eL' = (Inr v, sw2, e2)"
      by (cases "get_current_channel (sw\<lparr>authenticated := True\<rparr>) eL'") auto
    then obtain e3 where "show_channel v e2 = (Inr (), e3)"
      using current_value [of "sw\<lparr>authenticated := True\<rparr>" eL' v] show_channel_Inr [of v e2]
      by auto
    with g show ?thesis by simp
  qed
  have st: "fst (case set_channel (sw\<lparr>authenticated := True\<rparr>) eL' (PStr source) of
                   (Inl x, switcher2, e2) \<Rightarrow> (Inl x, e2, inp)
                 | (Inr ok2, switcher2, e2) \<Rightarrow>
                     (Inr (),
                      print ((if ok2 then ''Successfully switched to: ''
                              else ''Failed to switch to: '') @ source) e2,
                      inp)) = Inr ()"
    using set_Inr [of "sw\<lparr>authenticated := True\<rparr>" eL' "PStr source"]
    by (cases "set_channel (sw\<lparr>authenticated := True\<rparr>) eL' (PStr source)") auto
  show "fst (main a e inp) = Inr ()"
    using s cur st l unfolding sw_def
    by (auto simp add: main_def Let_def)
  then show "exit_status (fst (main a e inp)) = 0"
    by (simp add: exit_status_def)
next
  assume s: "status_zero (next_reply e (login_params sw)) \<and> arg_command a = Some CmdList
            \<and> fst (get_ndi_sources (sw\<lparr>authenticated := True\<rparr>) eL) = Inr sources
            \<and> (\<not> truthy sources
                \<or> sources = PList srcs
                  \<and> (\<forall>src\<in>set srcs. text_field src ''ndi-name'' \<noteq> None
                                      \<and> text_field src ''ip-addr'' \<noteq> None))"
  obtain eL' where l: "login sw e = (Inr True, sw\<lparr>authenticated := True\<rparr>, eL')"
    using s main_dispatch [of e a] unfolding sw_def by blast
  have eL: "eL = eL'"
    by (simp add: eL_def l)
  obtain sw2 e2 where g: "get_ndi_sources (sw\<lparr>authenticated := True\<rparr>) eL' = (Inr sources, sw2, e2)"
    using s eL by (cases "get_ndi_sources (sw\<lparr>authenticated := True\<rparr>) eL'") auto
  have "fst (display_ndi_sources sources e2) = Inr ()" if "truthy sources"
  proof -
    from s that have w: "sources = PList srcs"
      "\<forall>src\<in>set srcs. text_field src ''ndi-name'' \<noteq> None \<and> text_field src ''ip-addr'' \<noteq> None"
      by auto
    with that have "srcs \<noteq> []" by auto
    then show ?thesis
      by (simp add: w(1) display_ndi_sources_def Let_def display_rows_text [OF w(2)])
  qed
  then show "fst (main a e inp) = Inr ()"
    using s l g unfolding sw_def
    by (auto simp add: main_def Let_def split: prod.splits)
  then show "exit_status (fst (main a e inp)) = 0"
    by (simp add: exit_status_def)
next
  assume s: "status_zero (next_reply e (login_params sw)) \<and> arg_command a = Some CmdInteractive"
  obtain eL' where l: "login sw e = (Inr True, sw\<lparr>authenticated := True\<rparr>, eL')"
    using s main_dispatch [of e a] unfolding sw_def by blast
  have eL: "eL = eL'"
    by (simp add: eL_def l)
  show "fst (main a e inp) = fst (run_interactive_mode (sw\<lparr>authenticated := True\<rparr>) eL inp)"
    using s l unfolding eL sw_def
    by (auto simp add: main_def Let_def split: prod.splits)
qed

theorem main_exit_status_witness:
  "exit_status (fst (main \<lparr>arg_ip = ''10.0.0.9'', arg_username = ''Admin'', arg_password = ''Admin'',
                           arg_command = Some (CmdSet ''CAM-1'')\<rparr>
                      (ex_env (\<lambda>n rq. TransportError)) [])) = 1
   \<and> exit_status (fst (main \<lparr>arg_ip = ''10.0.0.9'', arg_username = ''Admin'', arg_password = ''Admin'',
                              arg_command = Some (CmdSet ''CAM-1'')\<rparr>
                      (ex_env (\<lambda>n rq. if n = 0 then ok_body [] else TransportError)) [])) = 0"
  using main_exit_status
          [where a = "\<lparr>arg_ip = ''10.0.0.9'', arg_username = ''Admin'', arg_password = ''Admin'',
                        arg_command = Some (CmdSet ''CAM-1'')\<rparr>"
             and e = "ex_env (\<lambda>n rq. TransportError)" and inp = "[]"]
        main_exit_status
          [where a = "\<lparr>arg_ip = ''10.0.0.9'', arg_username = ''Admin'', arg_password = ''Admin'',
                        arg_command = Some (CmdSet ''CAM-1'')\<rparr>"
             and e = "ex_env (\<lambda>n rq. if n = 0 then ok_body [] else TransportError)"
             and inp = "[]" and source = "''CAM-1''"]
  by (simp add: status_zero_def next_reply_def ex_env_def ok_body_def exit_status_def)

theorem main_exit_status_counterexample:
  "fst (login (init ''10.0.0.9'' ''Admin'' ''Admin'') (ex_env (\<lambda>n rq. ok_body []))) = Inr True
   \<and> exit_status (fst (main \<lparr>arg_ip = ''10.0.0.9'', arg_username = ''Admin'', arg_password = ''Admin'',
                              arg_command = Some CmdInteractive\<rparr>
                      (ex_env (\<lambda>n rq. ok_body [])) [])) = 1"
proof -
  let ?s = "init ''10.0.0.9'' ''Admin'' ''Admin''"
  let ?e = "ex_env (\<lambda>n rq. ok_body [])"
  let ?e1 = "log (LogInfo (''Successfully logged in to '' @ ip_address ?s)) (?e\<lparr>sent := [login_params ?s]\<rparr>)"
  have l: "login ?s ?e = (Inr True, ?s\<lparr>authenticated := True\<rparr>, ?e1)"
    by (simp add: login_def login_try_def get_status_def session_get_def response_json_def
                  except_Exception_def ok_body_def ex_env_def log_def)
  have r: "fst (run_interactive_mode s0 e0 []) = Inl EOFError" for s0 e0
    unfolding run_interactive_mode_def
    by (subst run_loop.simps) (simp add: loop_body_Nil)
  show ?thesis
    by (simp add: main_def Let_def exit_status_def l r case_prod_beta)
qed

end
